theory Spec2Isabelle
  imports Main "HOL-Library.Sublist"
begin

section \<open>Python strings\<close>

text \<open>
  Texts are modelled as \<open>string\<close>; the characters of the model are the code points
  0 to 255, which covers the digits, the marker texts and the messages the program
  handles. \<open>len\<close> is \<open>length\<close>.
\<close>

text \<open>\<open>str.isspace\<close> on one character, for the code points below 256.\<close>

definition py_isspace :: "char \<Rightarrow> bool" where
  "py_isspace c = ((of_char c :: nat) \<in> {9, 10, 11, 12, 13, 28, 29, 30, 31, 32, 133, 160})"

text \<open>\<open>str.strip()\<close> with no argument.\<close>

definition py_lstrip :: "string \<Rightarrow> string" where
  "py_lstrip s = dropWhile py_isspace s"

definition py_rstrip :: "string \<Rightarrow> string" where
  "py_rstrip s = rev (dropWhile py_isspace (rev s))"

definition py_strip :: "string \<Rightarrow> string" where
  "py_strip s = py_rstrip (py_lstrip s)"

text \<open>\<open>str(n)\<close> for a non-negative integer: its decimal digits.\<close>

definition digit_char :: "nat \<Rightarrow> char" where
  "digit_char d = ''0123456789'' ! d"

fun py_str :: "nat \<Rightarrow> string" where
  "py_str n = (if n < 10 then [digit_char n] else py_str (n div 10) @ [digit_char (n mod 10)])"

declare py_str.simps [simp del]

text \<open>\<open>p in t\<close> for strings: \<open>p\<close> occurs in \<open>t\<close> as a contiguous substring.\<close>

fun py_in :: "string \<Rightarrow> string \<Rightarrow> bool" where
  "py_in p [] = (p = [])"
| "py_in p (c # cs) = (prefix p (c # cs) \<or> py_in p cs)"

text \<open>
  \<open>re.findall(p, t)\<close> and \<open>re.sub(p, "", t)\<close> for a pattern without regular
  expression metacharacters (the callers pass \<open>str(case_id)\<close>, a string of digits): the
  scan goes left to right, a match consumes its characters, the next match is searched
  after it. The empty pattern matches once at every position and removes nothing.
\<close>

fun re_findall :: "string \<Rightarrow> string \<Rightarrow> string list" where
  "re_findall p [] = (if p = [] then [[]] else [])"
| "re_findall p (c # cs) =
     (if prefix p (c # cs) then p # re_findall p (drop (length p - 1) cs)
      else re_findall p cs)"

fun re_sub_empty :: "string \<Rightarrow> string \<Rightarrow> string" where
  "re_sub_empty p [] = []"
| "re_sub_empty p (c # cs) =
     (if p \<noteq> [] \<and> prefix p (c # cs) then re_sub_empty p (drop (length p - 1) cs)
      else c # re_sub_empty p cs)"


section \<open>Exceptions\<close>

text \<open>
  The exception classes of the three driver modules and the built-in ones the code can
  raise, each with its message. The modules \<open>va03\<close>, \<open>fb03\<close> and \<open>qm02\<close>
  declare classes of the same name (\<open>SapConnectionLostError\<close>,
  \<open>DocumentProcessingError\<close>, \<open>UninitializedModuleError\<close>); a driver raises only
  the classes of its own module and the orchestrator catches the classes of the driver
  it calls, so one constructor per name is enough.
\<close>

datatype exn =
    CaseIdContainedWarning string
  | CreditNoteNotFoundWarning string
  | DocumentProcessingWarning string
  | DocumentProcessingError string
  | NotificationCompletionWarning string
  | NotificationCompletionError string
  | SapConnectionLostError string
  | UninitializedModuleError string
  | RuntimeError string
  | TypeError string
  | ValueError string
  | ZeroDivisionError
  | StopIteration
  | OtherException string

section \<open>The remote user interface\<close>

text \<open>
  The drivers talk to the remote system through calls that act on it (sending a key,
  writing a field, pressing a button) and calls that read it (status bar, active window,
  field texts). The state of the remote session is the history of the acting calls made
  so far, an \<open>event list\<close>; what a reading call returns is a function of that history,
  given by a record of observation functions. A driver is then a function from the
  observations and the history to a result and the extended history. Transport faults of
  single calls (\<open>pywintypes.com_error\<close>) are not part of the driver models; the
  orchestrator's model receives their effect as an outcome of the driver operation.
\<close>

datatype key = Enter | F2 | F3 | F5 | F8 | F9 | CtrlS | F12 | ShiftF3 | ShiftF4 | ShiftF12 | CtrlF1

fun virtual_keys :: "key \<Rightarrow> nat" where
  "virtual_keys Enter = 0"
| "virtual_keys F2 = 2"
| "virtual_keys F3 = 3"
| "virtual_keys F5 = 5"
| "virtual_keys F8 = 8"
| "virtual_keys F9 = 9"
| "virtual_keys CtrlS = 11"
| "virtual_keys F12 = 12"
| "virtual_keys ShiftF3 = 15"
| "virtual_keys ShiftF4 = 16"
| "virtual_keys ShiftF12 = 24"
| "virtual_keys CtrlF1 = 25"

datatype event =
    SendVKey nat
  | SetText string string
  | SetFocus string
  | Press string
  | PressCaption string
  | SelectTab string
  | ScrollTo int
  | SelectRow int
  | SelectItem string
  | DoubleClickItem string
  | Sleep nat

text \<open>
  The hierarchy shown by the tree control of VA03: every node has a key, a text and
  its sub-nodes in display order; a list of nodes is a sequence of siblings.
\<close>

datatype node = Node (node_key: string) (node_text: string) (subnodes: "node list")

record gui =
  sbar_text :: "event list \<Rightarrow> string"
  sbar_messageType :: "event list \<Rightarrow> string"
  ActiveWindow_text :: "event list \<Rightarrow> string"
  ActiveWindow_type :: "event list \<Rightarrow> string"
  field_text :: "string \<Rightarrow> event list \<Rightarrow> string"
  field_count :: "string \<Rightarrow> event list \<Rightarrow> nat"
  has_button :: "string \<Rightarrow> event list \<Rightarrow> bool"
  text_write_error :: "string \<Rightarrow> event list \<Rightarrow> string option"
  dialog_messages :: "event list \<Rightarrow> string list"
  tree_nodes :: "event list \<Rightarrow> node list"
  cell_value :: "string \<Rightarrow> event list \<Rightarrow> string"
  RowCount :: "event list \<Rightarrow> nat"
  visibleRowCount :: "event list \<Rightarrow> nat"
  grid_cell :: "nat \<Rightarrow> nat \<Rightarrow> event list \<Rightarrow> string"

type_synonym 'a io = "(exn + 'a) \<times> event list"

text \<open>Sequencing: an exception ends the sequence, a value is passed on.\<close>

definition bind :: "'a io \<Rightarrow> ('a \<Rightarrow> event list \<Rightarrow> 'b io) \<Rightarrow> 'b io" where
  "bind m f = (case m of (Inl e, tr) \<Rightarrow> (Inl e, tr) | (Inr x, tr) \<Rightarrow> f x tr)"

definition press_key :: "key \<Rightarrow> event list \<Rightarrow> event list" where
  "press_key name tr = tr @ [SendVKey (virtual_keys name)]"

definition is_popup_dialog :: "gui \<Rightarrow> event list \<Rightarrow> bool" where
  "is_popup_dialog G tr = (ActiveWindow_type G tr = ''GuiModalWindow'')"

definition dialog_titles :: "string list" where
  "dialog_titles = [''Information'', ''Status check error'', ''Document lines: Display messages'']"

text \<open>
  \<open>_close_popup_dialog\<close>, the same function in the three modules. The loop presses the
  key while the active window carries a known title, at most \<open>max_attempts\<close> times.
\<close>

fun close_popup_keys :: "gui \<Rightarrow> bool \<Rightarrow> nat \<Rightarrow> event list \<Rightarrow> event list" where
  "close_popup_keys G confirm 0 tr = tr"
| "close_popup_keys G confirm (Suc n) tr =
     (if ActiveWindow_text G tr \<in> set dialog_titles
      then close_popup_keys G confirm n (press_key (if confirm then Enter else F12) tr)
      else tr)"

definition close_popup_dialog :: "gui \<Rightarrow> bool \<Rightarrow> nat \<Rightarrow> event list \<Rightarrow> unit io" where
  "close_popup_dialog G confirm max_attempts tr =
     (let tr1 = close_popup_keys G confirm max_attempts tr in
      if ActiveWindow_type G tr1 = ''GuiModalWindow''
      then (Inl (RuntimeError (''Could not close the dialog window: '' @ [CHR 0x27]
                    @ ActiveWindow_text G tr1 @ [CHR 0x27] @ ''!'')), tr1)
      else let btn_caption = (if confirm then ''Yes'' else ''No'') in
        if has_button G btn_caption tr1 then (Inr (), tr1 @ [PressCaption btn_caption])
        else (Inr (), tr1))"


section \<open>Document Annotation driver (fb03.py)\<close>

definition MAX_TEXT_FIELD_CHARS :: nat where
  "MAX_TEXT_FIELD_CHARS = 50"

definition is_error_message :: "gui \<Rightarrow> event list \<Rightarrow> bool" where
  "is_error_message G tr = (sbar_messageType G tr = ''E'')"

definition is_warning_message :: "gui \<Rightarrow> event list \<Rightarrow> bool" where
  "is_warning_message G tr = (sbar_messageType G tr = ''W'')"

definition is_alert_message :: "gui \<Rightarrow> event list \<Rightarrow> bool" where
  "is_alert_message G tr = (is_error_message G tr \<or> is_warning_message G tr)"

definition is_cleared_document :: "gui \<Rightarrow> event list \<Rightarrow> bool" where
  "is_cleared_document G tr = (field_count G ''BSEG-AUGBL'' tr = 1)"

definition fb03_save_changes :: "gui \<Rightarrow> event list \<Rightarrow> unit io" where
  "fb03_save_changes G tr =
     (let tr1 = press_key CtrlS tr; msg = sbar_text G tr1 in
      if is_alert_message G tr1 then
        (if py_in ''Net due date on * is in the past'' msg then (Inr (), press_key Enter tr1)
         else (Inl (DocumentProcessingError ''Unable to save document changes!''), tr1))
      else (Inr (), tr1))"

text \<open>\<open>_remove_duplicates\<close>: the text repair for credit notes.\<close>

definition remove_duplicates :: "string \<Rightarrow> string \<Rightarrow> string" where
  "remove_duplicates text case_id =
     (let matches = re_findall case_id text in
      if length matches \<ge> 2 \<and> matches ! 0 = matches ! 1
      then py_strip (re_sub_empty case_id text)
      else text)"

definition fb03_set_search_criteria ::
    "gui \<Rightarrow> string \<Rightarrow> string \<Rightarrow> string \<Rightarrow> event list \<Rightarrow> unit io" where
  "fb03_set_search_criteria G cocd doc_num doc_year tr =
     (let tr1 = press_key Enter (tr @ [SetText ''RF05L-BUKRS'' cocd,
                  SetText ''RF05L-BELNR'' doc_num, SetText ''RF05L-GJAHR'' doc_year]) in
      if py_in ''does not exist '' (sbar_text G tr1)
      then (Inl (DocumentProcessingError (sbar_text G tr1)), tr1)
      else (Inr (), tr1))"

text \<open>
  The module defines \<open>_clear_search_criteria\<close> three times; the last definition is the
  one in force: it empties the three fields and sends no key.
\<close>

definition fb03_clear_search_criteria :: "event list \<Rightarrow> event list" where
  "fb03_clear_search_criteria tr =
     tr @ [SetText ''RF05L-BUKRS'' [], SetText ''RF05L-BELNR'' [], SetText ''RF05L-GJAHR'' []]"

definition fb03_to_initial_screen :: "event list \<Rightarrow> event list" where
  "fb03_to_initial_screen tr = press_key F12 (press_key F12 tr)"

definition fb03_open_document_parameters :: "event list \<Rightarrow> event list" where
  "fb03_open_document_parameters tr = press_key F2 (tr @ [SetFocus ''RF05L-ANZDT''])"

text \<open>\<open>_append_case_id\<close>: composes the new text, or raises.\<close>

definition append_case_id_text :: "string \<Rightarrow> nat \<Rightarrow> event list \<Rightarrow> string io" where
  "append_case_id_text text case_id tr =
     (if py_in (py_str case_id) text
      then (Inl (CaseIdContainedWarning ''Document text already contains the case ID!''),
            fb03_to_initial_screen tr)
      else let compiled_text = remove_duplicates text (py_str case_id);
               compiled_text = py_strip compiled_text @ '' D '' @ py_str case_id in
        if \<not> length compiled_text \<le> MAX_TEXT_FIELD_CHARS
        then (Inl (DocumentProcessingError ([CHR 0x27] @ ''Text'' @ [CHR 0x27] @ '' value exceeds ''
                     @ py_str MAX_TEXT_FIELD_CHARS @ '' chars length!'')), tr)
        else (Inr compiled_text, tr))"

definition fb03_get_document_text :: "gui \<Rightarrow> event list \<Rightarrow> string" where
  "fb03_get_document_text G tr = field_text G ''BSEG-SGTXT'' tr"

definition fb03_set_document_text :: "gui \<Rightarrow> string \<Rightarrow> event list \<Rightarrow> unit io" where
  "fb03_set_document_text G val tr =
     (case text_write_error G ''BSEG-SGTXT'' tr of
        None \<Rightarrow> (Inr (), tr @ [SetText ''BSEG-SGTXT'' val])
      | Some exc \<Rightarrow>
          (let tr1 = fb03_to_initial_screen tr in
           if is_cleared_document G tr1
           then (Inl (DocumentProcessingError
                   ''The document is already cleared and the text cannot be changed!''), tr1)
           else (Inl (DocumentProcessingError exc), tr1)))"

text \<open>
  \<open>append_case_id\<close>. The module state \<open>_sess\<close> is \<open>None\<close> before \<open>start\<close> and the
  session (here its history) afterwards.
\<close>

definition fb03_append_case_id ::
    "gui \<Rightarrow> nat \<Rightarrow> nat \<Rightarrow> string \<Rightarrow> nat \<Rightarrow> event list option \<Rightarrow> (exn + unit) \<times> event list option" where
  "fb03_append_case_id G document fiscal_year company_code case_id sess =
     (case sess of
        None \<Rightarrow> (Inl (UninitializedModuleError
          ''Uninitialized module! Use the `start()` procedure to run the transaction first!''), None)
      | Some tr \<Rightarrow> map_prod id Some (
          bind (fb03_set_search_criteria G company_code (py_str document) (py_str fiscal_year) tr)
          (\<lambda>_ tr.
            if is_alert_message G tr then (Inl (DocumentProcessingError (sbar_text G tr)), tr)
            else let tr = fb03_open_document_parameters tr;
                     old_text = fb03_get_document_text G tr in
              bind (append_case_id_text old_text case_id tr)
              (\<lambda>new_text tr.
                if is_popup_dialog G tr
                then bind (close_popup_dialog G False 3 tr)
                       (\<lambda>_ tr. (Inl (DocumentProcessingError ''Unable to edit the document!''), tr))
                else bind (fb03_set_document_text G new_text (press_key CtrlF1 tr))
                       (\<lambda>_ tr. bind (fb03_save_changes G tr)
                         (\<lambda>_ tr. (Inr (), fb03_clear_search_criteria tr)))))))"


section \<open>Credit-Note Lookup driver (va03.py)\<close>

text \<open>
  \<open>int(s)\<close> for a string: surrounding whitespace is dropped, one sign is allowed, the
  digits may be grouped by single underscores. \<open>None\<close> stands for \<open>ValueError\<close>.
\<close>

definition is_digit :: "char \<Rightarrow> bool" where
  "is_digit c = (c \<in> set ''0123456789'')"

definition digit_val :: "char \<Rightarrow> nat" where
  "digit_val c = of_char c - 48"

fun parse_digits :: "nat \<Rightarrow> bool \<Rightarrow> string \<Rightarrow> nat option" where
  "parse_digits acc prev [] = (if prev then Some acc else None)"
| "parse_digits acc prev (c # cs) =
     (if is_digit c then parse_digits (10 * acc + digit_val c) True cs
      else if c = CHR ''_'' \<and> prev then parse_digits acc False cs
      else None)"

definition py_int :: "string \<Rightarrow> int option" where
  "py_int s =
     (case py_strip s of
        [] \<Rightarrow> None
      | c # cs \<Rightarrow>
          if c = CHR ''-'' then map_option (\<lambda>n. - int n) (parse_digits 0 False cs)
          else if c = CHR ''+'' then map_option int (parse_digits 0 False cs)
          else map_option int (parse_digits 0 False (c # cs)))"

text \<open>\<open>val[-n:]\<close>: the last \<open>n\<close> characters, the whole string when it is shorter.\<close>

definition last_chars :: "nat \<Rightarrow> string \<Rightarrow> string" where
  "last_chars n val = drop (length val - n) val"

text \<open>
  \<open>_get_reference_number\<close>: selects and double-clicks the node, then reads the
  reference field of the first row of the accounting table.
\<close>

definition get_reference_number :: "gui \<Rightarrow> string \<Rightarrow> event list \<Rightarrow> int io" where
  "get_reference_number G node tr =
     (let credit_note_digits_count = 9;
          tr1 = tr @ [SelectItem node, DoubleClickItem node];
          val = cell_value G ''DOCNUV'' tr1 in
      case py_int (last_chars credit_note_digits_count val) of
        None \<Rightarrow> (Inl (ValueError (last_chars credit_note_digits_count val)), tr1)
      | Some num \<Rightarrow> (Inr num, tr1))"

text \<open>
  \<open>_get_node_value\<close> from a given node on. The argument list is the node followed by
  its next siblings (\<open>GetNextNodeKey\<close> raises at the last sibling, which is the empty
  list here); \<open>GetSubNodesCol\<close> is \<open>None\<close> for a node without sub-nodes.
\<close>

fun get_node_value :: "gui \<Rightarrow> string \<Rightarrow> node list \<Rightarrow> event list \<Rightarrow> int option io" where
  "get_node_value G substr [] tr = (Inr None, tr)"
| "get_node_value G substr (Node key txt children # siblings) tr =
     (if py_in substr txt then
        (case get_reference_number G key tr of
           (Inl e, tr1) \<Rightarrow> (Inl e, tr1)
         | (Inr num, tr1) \<Rightarrow> (Inr (Some num), tr1))
      else
        (case (if children \<noteq> [] then get_node_value G substr children tr else (Inr None, tr)) of
           (Inl e, tr1) \<Rightarrow> (Inl e, tr1)
         | (Inr (Some res), tr1) \<Rightarrow> (Inr (Some res), tr1)
         | (Inr None, tr1) \<Rightarrow> get_node_value G substr siblings tr1))"

text \<open>
  The entry of the search (\<open>tree is None\<close>): the first node of the tree's node
  collection; an empty collection has no first node.
\<close>

definition get_node_value_root :: "gui \<Rightarrow> string \<Rightarrow> event list \<Rightarrow> int option io" where
  "get_node_value_root G substr tr =
     (case tree_nodes G tr of
        [] \<Rightarrow> (Inl StopIteration, tr)
      | nodes \<Rightarrow> get_node_value G substr nodes tr)"

definition va03_clear_search_criteria :: "event list \<Rightarrow> event list" where
  "va03_clear_search_criteria tr =
     tr @ [SetText ''VBAK-VBELN'' [], SetText ''RV45S-BSTNK'' [], SetText ''RV45S-KUNNR'' [],
           SetText ''RV45Z-LFNKD'' [], SetText ''RV45S-FAKKD'' [], SetText ''RV45S-PSPID'' []]"

definition va03_to_initial_screen :: "event list \<Rightarrow> event list" where
  "va03_to_initial_screen tr = press_key F12 (press_key ShiftF3 tr)"

definition va03_open_document_parameters :: "event list \<Rightarrow> event list" where
  "va03_open_document_parameters tr =
     press_key F5 (press_key F2 (tr @ [SetFocus ''KUWEV-KUNNR'']))"

text \<open>\<open>_get_dialog_message\<close>: the lines of the dialog joined by spaces, trimmed.\<close>

definition get_dialog_message :: "gui \<Rightarrow> event list \<Rightarrow> string" where
  "get_dialog_message G tr = py_strip (foldl (\<lambda>msg line. msg @ '' '' @ line) [] (dialog_messages G tr))"

definition handle_popup_dialog :: "gui \<Rightarrow> event list \<Rightarrow> unit io" where
  "handle_popup_dialog G tr =
     (let msg = get_dialog_message G tr in
      bind (close_popup_dialog G True 3 tr) (\<lambda>_ tr.
        if py_in ''information in the customer comment text'' msg then (Inr (), tr)
        else if py_in ''Order is blocked'' msg
          then (Inl (DocumentProcessingWarning msg), press_key F3 tr)
        else (Inl (DocumentProcessingError msg), press_key F3 tr)))"

definition va03_get_creditnote_number ::
    "gui \<Rightarrow> string \<Rightarrow> event list option \<Rightarrow> (exn + int) \<times> event list option" where
  "va03_get_creditnote_number G order sess =
     (case sess of
        None \<Rightarrow> (Inl (UninitializedModuleError
          ''Uninitialized module! Use the `start()` procedure to run the transaction first!''), None)
      | Some tr \<Rightarrow> map_prod id Some (
          let tr = press_key Enter (tr @ [SetText ''VBAK-VBELN'' order]) in
          bind (if is_popup_dialog G tr then handle_popup_dialog G tr else (Inr (), tr))
          (\<lambda>_ tr.
            if py_in ''is not in the database or has been archived'' (sbar_text G tr)
            then (Inl (DocumentProcessingError (''Order '' @ order @ '' not found!'')), tr)
            else let tr = va03_open_document_parameters tr in
              bind (if is_popup_dialog G tr then handle_popup_dialog G tr else (Inr (), tr))
              (\<lambda>_ tr.
                if is_error_message G tr then (Inl (DocumentProcessingError (sbar_text G tr)), tr)
                else bind (get_node_value_root G ''Accounting document'' tr)
                  (\<lambda>num tr.
                    let tr = va03_to_initial_screen tr in
                    case num of
                      None \<Rightarrow> (Inl (CreditNoteNotFoundWarning
                        ''The credit note does not exist yet in the system.''), tr)
                    | Some n \<Rightarrow> (Inr n, va03_clear_search_criteria tr))))))"

section \<open>Notification Closure driver (qm02.py)\<close>

definition qm02_to_initial_screen :: "event list \<Rightarrow> event list" where
  "qm02_to_initial_screen tr = press_key F12 (press_key ShiftF3 tr)"

text \<open>\<open>_select_task\<close>: moves the scrollbar to the row and marks the row as selected.\<close>

definition select_task :: "int \<Rightarrow> event list \<Rightarrow> event list" where
  "select_task row_idx tr = tr @ [ScrollTo row_idx, SelectRow row_idx]"

text \<open>\<open>_activate_tab\<close>; the only caller passes \<open>"Data"\<close>.\<close>

definition activate_tab :: "event list \<Rightarrow> event list" where
  "activate_tab tr = tr @ [SelectTab ''TAB_GROUP_10'']"

text \<open>
  The loop \<open>while _is_popup_dialog(): _close_popup_dialog(confirm = True)\<close> of
  \<open>_complete_task\<close>. Closing a dialog can press a button that opens the next one, so
  the loop has no bound; a run that never leaves it is \<open>None\<close>.
\<close>

partial_function (option) close_popups_while :: "gui \<Rightarrow> event list \<Rightarrow> unit io option" where
  "close_popups_while G tr =
     (if is_popup_dialog G tr then
        (case close_popup_dialog G True 3 tr of
           (Inl exc, tr1) \<Rightarrow> Some (Inl exc, tr1)
         | (Inr u, tr1) \<Rightarrow> close_popups_while G tr1)
      else Some (Inr (), tr))"

definition complete_task :: "gui \<Rightarrow> int \<Rightarrow> event list \<Rightarrow> unit io option" where
  "complete_task G task_num tr =
     (let tr1 = select_task (task_num - 1) tr @ [Press ''FC_ERLEDIGT''] in
      if ActiveWindow_text G tr1 = ''Status check error''
      then Some (close_popup_dialog G False 3 tr1)
      else close_popups_while G tr1)"

definition set_notification_id :: "string \<Rightarrow> event list \<Rightarrow> event list" where
  "set_notification_id val tr = tr @ [SetText ''wnd[0]/usr/ctxtRIWO00-QMNUM'' val]"

definition clear_notification_search_field :: "event list \<Rightarrow> event list" where
  "clear_notification_search_field tr = set_notification_id [] tr"

text \<open>
  The dictionary of tasks keeps the order in which the task numbers were first stored;
  storing a number again replaces its entry in place.
\<close>

fun dict_set :: "'k \<Rightarrow> 'v \<Rightarrow> ('k \<times> 'v) list \<Rightarrow> ('k \<times> 'v) list" where
  "dict_set k v [] = [(k, v)]"
| "dict_set k v (p # ps) = (if fst p = k then (k, v) # ps else p # dict_set k v ps)"

text \<open>
  The loop of \<open>_get_available_tasks\<close>. An entry is the completion date and the row
  index of the task. Column 0 of the grid holds the task number, column 16 the
  completion date.
\<close>

function get_tasks_loop ::
    "gui \<Rightarrow> int \<Rightarrow> (int \<times> string \<times> nat) list \<Rightarrow> nat \<Rightarrow> event list \<Rightarrow> (int \<times> string \<times> nat) list io" where
  "get_tasks_loop G last_row_idx tasks row_idx tr =
     (if int row_idx < last_row_idx then
        (if visibleRowCount G tr = 0 then (Inl ZeroDivisionError, tr)
         else
           let visible_row_idx = row_idx mod visibleRowCount G tr;
               tr1 = (if visible_row_idx = 0 \<and> row_idx > 0 then tr @ [ScrollTo (int row_idx)] else tr)
           in
           if grid_cell G visible_row_idx 0 tr1 = [] then (Inr tasks, tr1)
           else
             (case py_int (grid_cell G visible_row_idx 0 tr1) of
                None \<Rightarrow> (Inl (ValueError (grid_cell G visible_row_idx 0 tr1)), tr1)
              | Some task_num \<Rightarrow>
                  get_tasks_loop G last_row_idx
                    (dict_set task_num (grid_cell G visible_row_idx 16 tr1, row_idx) tasks)
                    (row_idx + 1) tr1))
      else (Inr tasks, tr))"
  by pat_completeness auto
termination
  by (relation "measure (\<lambda>(G, last_row_idx, tasks, row_idx, tr). nat (last_row_idx - int row_idx))") auto

declare get_tasks_loop.simps [simp del]

definition get_available_tasks :: "gui \<Rightarrow> event list \<Rightarrow> (int \<times> string \<times> nat) list io" where
  "get_available_tasks G tr = get_tasks_loop G (int (RowCount G tr) - 1) [] 0 tr"

text \<open>\<open>_reopen_blocked\<close>: waits and confirms again while the status is an error.\<close>

function reopen_loop :: "gui \<Rightarrow> nat \<Rightarrow> nat \<Rightarrow> nat \<Rightarrow> event list \<Rightarrow> event list" where
  "reopen_loop G max_attempts wait_secs n_attempts tr =
     (if n_attempts \<le> max_attempts then
        (let tr1 = press_key Enter (tr @ [Sleep wait_secs]) in
         if \<not> is_error_message G tr1 then tr1
         else reopen_loop G max_attempts wait_secs (n_attempts + 1) tr1)
      else tr)"
  by pat_completeness auto
termination
  by (relation "measure (\<lambda>(G, max_attempts, wait_secs, n_attempts, tr). max_attempts + 1 - n_attempts)") auto

declare reopen_loop.simps [simp del]

definition reopen_blocked :: "gui \<Rightarrow> nat \<Rightarrow> nat \<Rightarrow> event list \<Rightarrow> unit io" where
  "reopen_blocked G max_attempts wait_secs tr =
     (let tr1 = reopen_loop G max_attempts wait_secs 0 tr in
      if is_error_message G tr1 then (Inl (NotificationCompletionError (sbar_text G tr1)), tr1)
      else (Inr (), tr1))"

definition search_notification :: "gui \<Rightarrow> nat \<Rightarrow> event list \<Rightarrow> unit io" where
  "search_notification G val tr =
     (let tr1 = press_key Enter (set_notification_id (py_str val) tr) in
      bind (if is_popup_dialog G tr1 then close_popup_dialog G True 3 tr1 else (Inr (), tr1))
      (\<lambda>_ tr.
        let msg = sbar_text G tr in
        if py_in ''does not exist'' msg then (Inl (NotificationCompletionError msg), tr)
        else if py_in ''can only be displayed'' msg
          then (Inl (NotificationCompletionWarning msg), press_key F12 tr)
        else if py_in ''blocked'' msg then reopen_blocked G 3 2 tr
        else if is_popup_dialog G tr
          then bind (close_popup_dialog G True 3 tr)
                 (\<lambda>_ tr. (Inl (NotificationCompletionError msg), qm02_to_initial_screen tr))
        else (Inr (), tr)))"

text \<open>The \<open>for\<close> loop of \<open>_complete\<close> over the tasks, and \<open>_complete\<close>.\<close>

fun complete_tasks :: "gui \<Rightarrow> (int \<times> string \<times> nat) list \<Rightarrow> event list \<Rightarrow> unit io option" where
  "complete_tasks G [] tr = Some (Inr (), tr)"
| "complete_tasks G ((task_num, completion_date, row_idx) # tasks) tr =
     (if completion_date \<noteq> [] then complete_tasks G tasks tr
      else
        (case complete_task G task_num tr of
           None \<Rightarrow> None
         | Some (Inl exc, tr1) \<Rightarrow> Some (Inl exc, tr1)
         | Some (Inr u, tr1) \<Rightarrow> complete_tasks G tasks tr1))"

definition qm02_complete :: "gui \<Rightarrow> event list \<Rightarrow> unit io option" where
  "qm02_complete G tr =
     (case get_available_tasks G tr of
        (Inl exc, tr1) \<Rightarrow> Some (Inl exc, tr1)
      | (Inr tasks, tr1) \<Rightarrow>
          (case complete_tasks G tasks tr1 of
             None \<Rightarrow> None
           | Some (Inl exc, tr2) \<Rightarrow> Some (Inl exc, tr2)
           | Some (Inr u, tr2) \<Rightarrow>
               (let tr3 = tr2 @ [Press ''tbar[1]/btn[20]''] in
                if ActiveWindow_text G tr3 = ''Status check error'' then
                  Some (bind (close_popup_dialog G False 3 tr3)
                    (\<lambda>_ tr. let tr = press_key F12 tr in
                      bind (if is_popup_dialog G tr then close_popup_dialog G False 3 tr
                            else (Inr (), tr))
                      (\<lambda>_ tr. (Inl (NotificationCompletionError ''Status check error!''), tr))))
                else Some (Inr (), tr3))))"

definition complete_notification ::
    "gui \<Rightarrow> nat \<Rightarrow> event list option \<Rightarrow> ((exn + unit) \<times> event list option) option" where
  "complete_notification G notif_id sess =
     (case sess of
        None \<Rightarrow> Some (Inl (UninitializedModuleError
          ''Uninitialized module! Use the `start()` procedure to run the transaction first!''), None)
      | Some tr \<Rightarrow>
          (case search_notification G notif_id tr of
             (Inl exc, tr1) \<Rightarrow> Some (Inl exc, Some tr1)
           | (Inr u, tr1) \<Rightarrow>
               (case qm02_complete G (activate_tab tr1) of
                  None \<Rightarrow> None
                | Some (Inl exc, tr2) \<Rightarrow> Some (Inl exc, Some tr2)
                | Some (Inr u, tr2) \<Rightarrow>
                    Some (Inr (), Some (clear_notification_search_field (press_key Enter tr2))))))"

section \<open>The orchestrator (controller.py)\<close>

text \<open>
  One row of the worksheet. Numbers are unsigned integers, \<open>None\<close> is a missing value
  (\<open>pd.NA\<close>). \<open>Message\<close> and \<open>Credit_Note\<close> are added by \<open>fetch_user_input\<close>,
  \<open>Is_Order\<close> by \<open>assign_credit_note_numbers\<close>. The index labels of the frame are
  unique, so a row is addressed by its position in the list.
\<close>

record row =
  Company_Code :: "string option"
  Document_Number :: "nat option"
  Document_Year :: "nat option"
  Case_ID :: "nat option"
  Notification :: "nat option"
  Message :: "string option"
  Credit_Note :: "nat option"
  Is_Order :: "bool option"

text \<open>
  What the orchestrator does to the outside: it opens a session, starts and closes a
  driver, and calls a driver operation. The history of these actions is the state of the
  outside; the outcome of a driver operation (the number it returns, or the exception it
  raises) is a function of the history that ends with the call. Opening a session and
  starting or closing a driver are taken to succeed. A credit-note number is an
  unsigned integer; operations that return nothing return 0.
\<close>

datatype driver = VA03 | FB03 | QM02

datatype action =
    Connect
  | Start driver
  | Close driver
  | GetCreditnoteNumber string
  | AppendCaseId "nat option" nat "string option" nat
  | CompleteNotification nat

type_synonym env = "action list \<Rightarrow> exn + nat"

definition ORDER_NUMBERING_PREFIX :: string where
  "ORDER_NUMBERING_PREFIX = ''501''"

definition MAX_RECOVERY_ATTEMPTS :: nat where
  "MAX_RECOVERY_ATTEMPTS = 3"

text \<open>\<open>str(exc)\<close>: the message of an exception.\<close>

fun exn_message :: "exn \<Rightarrow> string" where
  "exn_message (CaseIdContainedWarning m) = m"
| "exn_message (CreditNoteNotFoundWarning m) = m"
| "exn_message (DocumentProcessingWarning m) = m"
| "exn_message (DocumentProcessingError m) = m"
| "exn_message (NotificationCompletionWarning m) = m"
| "exn_message (NotificationCompletionError m) = m"
| "exn_message (SapConnectionLostError m) = m"
| "exn_message (UninitializedModuleError m) = m"
| "exn_message (RuntimeError m) = m"
| "exn_message (TypeError m) = m"
| "exn_message (ValueError m) = m"
| "exn_message ZeroDivisionError = []"
| "exn_message StopIteration = []"
| "exn_message (OtherException m) = m"

definition int_of_NA :: exn where
  "int_of_NA = TypeError (''int() argument must be a string, a bytes-like object or a real number, not ''
                 @ [CHR 0x27] @ ''NAType'' @ [CHR 0x27])"

definition bool_of_NA :: exn where
  "bool_of_NA = TypeError ''boolean value of NA is ambiguous''"

definition join_of_NA :: exn where
  "join_of_NA = TypeError ''sequence item 0: expected str instance, NAType found''"

subsection \<open>Credit-note lookup stage\<close>

text \<open>\<open>result.loc[mask, column] = value\<close> with \<open>mask = result["Document_Number"] == order\<close>.\<close>

definition set_where_order :: "nat \<Rightarrow> (row \<Rightarrow> row) \<Rightarrow> row list \<Rightarrow> row list" where
  "set_where_order order f result = map (\<lambda>r. if Document_Number r = Some order then f r else r) result"

text \<open>
  The \<open>while\<close> loop around \<open>va03.get_creditnote_number\<close>. It returns the counter and
  the frame at the exit of the loop, or the exception that left it. The handler of
  \<open>CreditNoteNotFoundWarning\<close> has no \<open>break\<close> and does not count, so the loop has no
  bound; a run that never leaves it is \<open>None\<close>.
\<close>

partial_function (option) va03_retry ::
    "env \<Rightarrow> nat \<Rightarrow> nat \<Rightarrow> row list \<Rightarrow> action list \<Rightarrow> ((exn + nat \<times> row list) \<times> action list) option" where
  "va03_retry env order n_attempts result tr =
     (if n_attempts < MAX_RECOVERY_ATTEMPTS then
        (case env (tr @ [GetCreditnoteNumber (py_str order)]) of
           Inl exc \<Rightarrow>
             (case exc of
                SapConnectionLostError m \<Rightarrow>
                  va03_retry env order (n_attempts + 1) result
                    (tr @ [GetCreditnoteNumber (py_str order), Connect, Start VA03])
              | DocumentProcessingError m \<Rightarrow>
                  Some (Inr (n_attempts, set_where_order order (\<lambda>r. r\<lparr>Message := Some m\<rparr>) result),
                        tr @ [GetCreditnoteNumber (py_str order)])
              | DocumentProcessingWarning m \<Rightarrow>
                  Some (Inr (n_attempts, set_where_order order (\<lambda>r. r\<lparr>Message := Some m\<rparr>) result),
                        tr @ [GetCreditnoteNumber (py_str order)])
              | CreditNoteNotFoundWarning m \<Rightarrow>
                  va03_retry env order n_attempts
                    (set_where_order order (\<lambda>r. r\<lparr>Message := Some m, Credit_Note := None\<rparr>) result)
                    (tr @ [GetCreditnoteNumber (py_str order)])
              | _ \<Rightarrow> Some (Inl exc, tr @ [GetCreditnoteNumber (py_str order)]))
         | Inr credit_note \<Rightarrow>
             Some (Inr (0, set_where_order order (\<lambda>r. r\<lparr>Credit_Note := Some credit_note\<rparr>) result),
                   tr @ [GetCreditnoteNumber (py_str order)]))
      else Some (Inr (n_attempts, result), tr))"

definition va03_order ::
    "env \<Rightarrow> nat \<Rightarrow> row list \<Rightarrow> action list \<Rightarrow> ((exn + row list) \<times> action list) option" where
  "va03_order env order result tr =
     (case va03_retry env order 0 result tr of
        None \<Rightarrow> None
      | Some (Inl exc, tr1) \<Rightarrow> Some (Inl exc, tr1)
      | Some (Inr (n_attempts, result1), tr1) \<Rightarrow>
          if n_attempts \<noteq> 0
          then Some (Inl (RuntimeError
                 ''Attempts to handle the va03.SapConnectionLostError exception failed!''), tr1)
          else Some (Inr result1, tr1))"

fun va03_orders ::
    "env \<Rightarrow> nat list \<Rightarrow> row list \<Rightarrow> action list \<Rightarrow> ((exn + row list) \<times> action list) option" where
  "va03_orders env [] result tr = Some (Inr result, tr)"
| "va03_orders env (order # orders) result tr =
     (case va03_order env order result tr of
        None \<Rightarrow> None
      | Some (Inl exc, tr1) \<Rightarrow> Some (Inl exc, tr1)
      | Some (Inr result1, tr1) \<Rightarrow> va03_orders env orders result1 tr1)"

definition assign_credit_note_numbers ::
    "env \<Rightarrow> row list \<Rightarrow> action list \<Rightarrow> ((exn + row list) \<times> action list) option" where
  "assign_credit_note_numbers env in_data tr =
     (if list_all (\<lambda>r. Document_Number r = None) in_data then Some (Inr in_data, tr)
      else
        let result = map (\<lambda>r. r\<lparr>Is_Order :=
                       map_option (\<lambda>d. prefix ORDER_NUMBERING_PREFIX (py_str d)) (Document_Number r)\<rparr>) in_data;
            n_orders = length (filter (\<lambda>r. Is_Order r = Some True) result)
        in
        if n_orders = 0 then Some (Inr result, tr)
        else
          let orders = List.map_filter
                 (\<lambda>r. if Is_Order r = Some True then Document_Number r else None) result
          in
          (case va03_orders env orders result (tr @ [Start VA03]) of
             None \<Rightarrow> None
           | Some (Inl exc, tr1) \<Rightarrow> Some (Inl exc, tr1)
           | Some (Inr result1, tr1) \<Rightarrow>
               if list_all (\<lambda>r. Credit_Note r = None) result1
               then Some (Inl (RuntimeError ''None of the processed orders was found in VA03!''),
                          tr1 @ [Close VA03])
               else Some (Inr result1, tr1 @ [Close VA03])))"

subsection \<open>Annotation stage\<close>

text \<open>
  The \<open>while\<close> loop around \<open>fb03.append_case_id\<close>, given the call it repeats. It
  returns the counter and the message of the row at the exit of the loop, or the
  exception that left it.
\<close>

function fb03_retry ::
    "env \<Rightarrow> action \<Rightarrow> nat \<Rightarrow> string option \<Rightarrow> action list \<Rightarrow> (exn + nat \<times> string option) \<times> action list" where
  "fb03_retry env call n_attempts msg tr =
     (if n_attempts < MAX_RECOVERY_ATTEMPTS then
        (case env (tr @ [call]) of
           Inl exc \<Rightarrow>
             (case exc of
                SapConnectionLostError m \<Rightarrow>
                  fb03_retry env call (n_attempts + 1) msg (tr @ [call, Connect, Start FB03])
              | CaseIdContainedWarning m \<Rightarrow> (Inr (n_attempts, Some m), tr @ [call])
              | DocumentProcessingError m \<Rightarrow> (Inr (n_attempts, Some m), tr @ [call])
              | _ \<Rightarrow> (Inl exc, tr @ [call]))
         | Inr _ \<Rightarrow> (Inr (0, Some ''Document updated.''), tr @ [call]))
      else (Inr (n_attempts, msg), tr))"
  by pat_completeness auto
termination
  by (relation "measure (\<lambda>(env, call, n_attempts, msg, tr). MAX_RECOVERY_ATTEMPTS - n_attempts)") auto

declare fb03_retry.simps [simp del]

text \<open>The body of the \<open>for\<close> loop of \<open>update_accounting_documents\<close> for one row.\<close>

definition fb03_update ::
    "env \<Rightarrow> row \<Rightarrow> nat option \<Rightarrow> action list \<Rightarrow> (exn + row) \<times> action list" where
  "fb03_update env r doc_num tr =
     (case Document_Year r of
        None \<Rightarrow> (Inl int_of_NA, tr)
      | Some doc_year \<Rightarrow>
          (case Case_ID r of
             None \<Rightarrow> (Inl int_of_NA, tr)
           | Some case_id \<Rightarrow>
               (case fb03_retry env (AppendCaseId doc_num doc_year (Company_Code r) case_id)
                       0 (Message r) tr of
                  (Inl exc, tr1) \<Rightarrow> (Inl exc, tr1)
                | (Inr (n_attempts, msg), tr1) \<Rightarrow>
                    if n_attempts \<noteq> 0
                    then (Inl (RuntimeError
                           ''Attempts to handle the fb03.SapConnectionLostError exception failed!''), tr1)
                    else (Inr (r\<lparr>Message := msg\<rparr>), tr1))))"

definition update_row :: "env \<Rightarrow> row \<Rightarrow> action list \<Rightarrow> (exn + row) \<times> action list" where
  "update_row env r tr =
     (case Is_Order r of
        None \<Rightarrow> (Inl bool_of_NA, tr)
      | Some is_order \<Rightarrow>
          if \<not> is_order then fb03_update env r (Document_Number r) tr
          else (case Credit_Note r of
                  Some credit_note \<Rightarrow> fb03_update env r (Some credit_note) tr
                | None \<Rightarrow>
                    (let msg = (case Message r of None \<Rightarrow> [] | Some m \<Rightarrow> m) in
                     (Inr (r\<lparr>Message := Some (py_strip (msg @ '' Document skipped.''))\<rparr>), tr))))"

fun update_rows :: "env \<Rightarrow> row list \<Rightarrow> action list \<Rightarrow> (exn + row list) \<times> action list" where
  "update_rows env [] tr = (Inr [], tr)"
| "update_rows env (r # rs) tr =
     (case update_row env r tr of
        (Inl exc, tr1) \<Rightarrow> (Inl exc, tr1)
      | (Inr r1, tr1) \<Rightarrow>
          (case update_rows env rs tr1 of
             (Inl exc, tr2) \<Rightarrow> (Inl exc, tr2)
           | (Inr rs1, tr2) \<Rightarrow> (Inr (r1 # rs1), tr2)))"

definition update_accounting_documents ::
    "env \<Rightarrow> row list \<Rightarrow> action list \<Rightarrow> (exn + row list) \<times> action list" where
  "update_accounting_documents env in_data tr =
     (let n_docs = length (filter (\<lambda>r. Document_Number r \<noteq> None) in_data) in
      if n_docs = 0 then (Inr in_data, tr)
      else
        (case update_rows env in_data (tr @ [Start FB03]) of
           (Inl exc, tr1) \<Rightarrow> (Inl exc, tr1)
         | (Inr result, tr1) \<Rightarrow> (Inr result, tr1 @ [Close FB03])))"

subsection \<open>Notification-closure stage\<close>

text \<open>
  The \<open>while\<close> loop around \<open>qm02.complete_notification\<close>. It returns the counter and
  the local \<open>msg\<close>, which is unset (\<open>None\<close>) when no attempt came to an end.
\<close>

function qm02_retry ::
    "env \<Rightarrow> nat \<Rightarrow> nat \<Rightarrow> action list \<Rightarrow> (nat \<times> string option) \<times> action list" where
  "qm02_retry env notif_id n_attempts tr =
     (if n_attempts < MAX_RECOVERY_ATTEMPTS then
        (case env (tr @ [CompleteNotification notif_id]) of
           Inl exc \<Rightarrow>
             (case exc of
                SapConnectionLostError m \<Rightarrow>
                  qm02_retry env notif_id (n_attempts + 1)
                    (tr @ [CompleteNotification notif_id, Connect, Start FB03])
              | _ \<Rightarrow> ((n_attempts, Some (exn_message exc)), tr @ [CompleteNotification notif_id]))
         | Inr _ \<Rightarrow> ((0, Some ''Notification completed.''), tr @ [CompleteNotification notif_id]))
      else ((n_attempts, None), tr))"
  by pat_completeness auto
termination
  by (relation "measure (\<lambda>(env, notif_id, n_attempts, tr). MAX_RECOVERY_ATTEMPTS - n_attempts)") auto

declare qm02_retry.simps [simp del]

definition close_row :: "env \<Rightarrow> row \<Rightarrow> action list \<Rightarrow> (exn + row) \<times> action list" where
  "close_row env r tr =
     (case Notification r of
        None \<Rightarrow> (Inl int_of_NA, tr)
      | Some notif_id \<Rightarrow>
          (case qm02_retry env notif_id 0 tr of
             ((n_attempts, msg), tr1) \<Rightarrow>
               if n_attempts \<noteq> 0
               then (Inl (RuntimeError
                      ''Attempts to handle the qm02.SapConnectionLostError exception failed!''), tr1)
               else (case (Message r, msg) of
                       (Some old, Some m) \<Rightarrow> (Inr (r\<lparr>Message := Some (old @ '' '' @ m)\<rparr>), tr1)
                     | (None, Some m) \<Rightarrow> (Inl join_of_NA, tr1)
                     | (_, None) \<Rightarrow> (Inl (OtherException ''UnboundLocalError''), tr1))))"

fun close_rows :: "env \<Rightarrow> row list \<Rightarrow> action list \<Rightarrow> (exn + row list) \<times> action list" where
  "close_rows env [] tr = (Inr [], tr)"
| "close_rows env (r # rs) tr =
     (case close_row env r tr of
        (Inl exc, tr1) \<Rightarrow> (Inl exc, tr1)
      | (Inr r1, tr1) \<Rightarrow>
          (case close_rows env rs tr1 of
             (Inl exc, tr2) \<Rightarrow> (Inl exc, tr2)
           | (Inr rs1, tr2) \<Rightarrow> (Inr (r1 # rs1), tr2)))"

definition close_service_notifications ::
    "env \<Rightarrow> row list \<Rightarrow> action list \<Rightarrow> (exn + row list) \<times> action list" where
  "close_service_notifications env in_data tr =
     (let n_notifs = length (filter (\<lambda>r. Notification r \<noteq> None) in_data) in
      if n_notifs = 0 then (Inr in_data, tr)
      else
        (case close_rows env in_data (tr @ [Start QM02]) of
           (Inl exc, tr1) \<Rightarrow> (Inl exc, tr1)
         | (Inr result, tr1) \<Rightarrow> (Inr result, tr1 @ [Close QM02])))"

subsection \<open>The processing phase of the program (app.py)\<close>

text \<open>
  The three stages in sequence; an exception of a stage ends the processing phase
  (the program logs it and returns 3).
\<close>

definition processing ::
    "env \<Rightarrow> row list \<Rightarrow> ((exn + row list) \<times> action list) option" where
  "processing env data =
     (case assign_credit_note_numbers env data [] of
        None \<Rightarrow> None
      | Some (Inl exc, tr) \<Rightarrow> Some (Inl exc, tr)
      | Some (Inr in_data, tr) \<Rightarrow>
          (case update_accounting_documents env in_data tr of
             (Inl exc, tr1) \<Rightarrow> (Some (Inl exc, tr1))
           | (Inr update_output, tr1) \<Rightarrow> Some (close_service_notifications env update_output tr1)))"

section \<open>Notions used to state the properties\<close>

text \<open>
  The number of positions of a text at which a pattern occurs (occurrences may overlap),
  and whether a list of interface events writes the document's text field.
\<close>

fun occ_count :: "string \<Rightarrow> string \<Rightarrow> nat" where
  "occ_count p [] = (if p = [] then 1 else 0)"
| "occ_count p (c # cs) = (if prefix p (c # cs) then 1 else 0) + occ_count p cs"

fun is_text_write :: "event \<Rightarrow> bool" where
  "is_text_write (SetText f v) = (f = ''BSEG-SGTXT'')"
| "is_text_write _ = False"

text \<open>
  A remote session for examples: a document is found, no status message and no dialog
  ever appears, and the text field holds the given text until it is written.
\<close>

fun last_written :: "string \<Rightarrow> event list \<Rightarrow> string option" where
  "last_written f [] = None"
| "last_written f (SetText g v # evs) =
     (case last_written f evs of Some w \<Rightarrow> Some w | None \<Rightarrow> if g = f then Some v else None)"
| "last_written f (_ # evs) = last_written f evs"

definition quiet_gui :: "string \<Rightarrow> gui" where
  "quiet_gui doc_text =
     \<lparr> sbar_text = (\<lambda>tr. []),
       sbar_messageType = (\<lambda>tr. ''S''),
       ActiveWindow_text = (\<lambda>tr. ''Display Document: Line Item 001''),
       ActiveWindow_type = (\<lambda>tr. ''GuiMainWindow''),
       field_text = (\<lambda>f tr. case last_written f tr of Some v \<Rightarrow> v
                               | None \<Rightarrow> if f = ''BSEG-SGTXT'' then doc_text else []),
       field_count = (\<lambda>f tr. 0),
       has_button = (\<lambda>c tr. False),
       text_write_error = (\<lambda>f tr. None),
       dialog_messages = (\<lambda>tr. []),
       tree_nodes = (\<lambda>tr. []),
       cell_value = (\<lambda>c tr. []),
       RowCount = (\<lambda>tr. 0),
       visibleRowCount = (\<lambda>tr. 0),
       grid_cell = (\<lambda>r c tr. []) \<rparr>"

text \<open>
  The nodes of a hierarchy in pre-order, leftmost first: a node, then the nodes below
  it, then its next siblings.
\<close>

fun preorder :: "node list \<Rightarrow> node list" where
  "preorder [] = []"
| "preorder (Node key txt children # siblings) =
     Node key txt children # preorder children @ preorder siblings"

text \<open>
  A remote session for examples of the tree search: an order whose document flow has
  one accounting document, below the second sub-node of the order; double-clicking
  that node shows the reference \<open>0090123456\<close>.
\<close>

definition flow_tree :: "node list" where
  "flow_tree =
     [Node ''1'' ''Credit Memo Request 5012233445''
        [Node ''2'' ''Delivery 80012345'' [Node ''3'' ''Picking request 20230101'' []],
         Node ''4'' ''Credit Memo 90123456'' [Node ''5'' ''Accounting document 90123456'' []],
         Node ''6'' ''Returns 60000001'' []]]"

definition tree_gui :: "node list \<Rightarrow> gui" where
  "tree_gui nodes =
     \<lparr> sbar_text = (\<lambda>tr. []),
       sbar_messageType = (\<lambda>tr. ''S''),
       ActiveWindow_text = (\<lambda>tr. ''Display Credit Memo Request: Overview''),
       ActiveWindow_type = (\<lambda>tr. ''GuiMainWindow''),
       field_text = (\<lambda>f tr. []),
       field_count = (\<lambda>f tr. 0),
       has_button = (\<lambda>c tr. False),
       text_write_error = (\<lambda>f tr. None),
       dialog_messages = (\<lambda>tr. []),
       tree_nodes = (\<lambda>tr. nodes),
       cell_value = (\<lambda>c tr. if c = ''DOCNUV'' \<and> DoubleClickItem ''5'' \<in> set tr
                               then ''0090123456'' else []),
       RowCount = (\<lambda>tr. 0),
       visibleRowCount = (\<lambda>tr. 0),
       grid_cell = (\<lambda>r c tr. []) \<rparr>"

text \<open>
  Rows and outside behaviours for examples: an invoice row with a notification, the
  same row without one, and an order row; a session that is lost at the first call of
  a driver operation and, once re-opened, lets every call succeed; and a session that
  is lost at the first call and, once re-opened, reports that the text already
  contains the case id.
\<close>

definition invoice_row :: row where
  "invoice_row =
     \<lparr> Company_Code = Some ''0010'', Document_Number = Some 544411698, Document_Year = Some 2024,
       Case_ID = Some 400081469, Notification = Some 300012345, Message = Some [],
       Credit_Note = None, Is_Order = Some False \<rparr>"

definition other_row :: row where
  "other_row = invoice_row \<lparr> Document_Number := Some 544411699, Notification := None \<rparr>"

definition order_row :: row where
  "order_row =
     \<lparr> Company_Code = Some ''0010'', Document_Number = Some 5012233445, Document_Year = Some 2024,
       Case_ID = Some 400081469, Notification = None, Message = Some [],
       Credit_Note = None, Is_Order = None \<rparr>"

definition lost_once :: env where
  "lost_once tr =
     (if Connect \<in> set tr then Inr 0 else Inl (SapConnectionLostError ''Connection to SAP lost!''))"

definition lost_then_contained :: env where
  "lost_then_contained tr =
     (if Connect \<in> set tr then Inl (CaseIdContainedWarning ''Document text already contains the case ID!'')
      else Inl (SapConnectionLostError ''Connection to SAP lost!''))"

text \<open>Whether an action is a call of a driver operation.\<close>

fun is_call :: "action \<Rightarrow> bool" where
  "is_call (GetCreditnoteNumber order) = True"
| "is_call (AppendCaseId doc_num doc_year cocd case_id) = True"
| "is_call (CompleteNotification notif_id) = True"
| "is_call _ = False"

definition always_ok :: env where
  "always_ok tr = Inr 90123456"

definition credited_order_row :: row where
  "credited_order_row = order_row \<lparr> Credit_Note := Some 90123456, Is_Order := Some True \<rparr>"

definition uncredited_order_row :: row where
  "uncredited_order_row =
     order_row \<lparr> Message := Some ''The credit note does not exist yet in the system.'',
                 Is_Order := Some True \<rparr>"

text \<open>
  A lookup outcome that resolves no credit note and is not a loss of the session: one
  of the three business conditions the lookup loop handles.
\<close>

fun business_failure :: "exn + nat \<Rightarrow> bool" where
  "business_failure (Inl (CreditNoteNotFoundWarning m)) = True"
| "business_failure (Inl (DocumentProcessingWarning m)) = True"
| "business_failure (Inl (DocumentProcessingError m)) = True"
| "business_failure _ = False"

text \<open>
  An outside in which the first lookup finds no credit note and every later lookup
  finds the order blocked; and a hierarchy without an accounting document.
\<close>

definition not_found_then_blocked :: env where
  "not_found_then_blocked tr =
     (if length (filter is_call tr) \<le> 1
      then Inl (CreditNoteNotFoundWarning ''The credit note does not exist yet in the system.'')
      else Inl (DocumentProcessingWarning ''Order is blocked''))"

definition uncredited_tree :: "node list" where
  "uncredited_tree =
     [Node ''1'' ''Credit Memo Request 5012233445'' [Node ''2'' ''Delivery 80012345'' []]]"

text \<open>
  A remote session for examples of the notification closure: the notification opens
  without a message; its grid shows the open tasks 1 and 2 and the completed task 3;
  pressing the completion button of a task or the overall completion button raises
  the dialog \<open>Status check error\<close>, which the next key closes.
\<close>

definition raises_status_check :: "event list \<Rightarrow> bool" where
  "raises_status_check tr =
     (tr \<noteq> [] \<and> (last tr = Press ''FC_ERLEDIGT'' \<or> last tr = Press ''tbar[1]/btn[20]''))"

definition status_check_gui :: gui where
  "status_check_gui =
     \<lparr> sbar_text = (\<lambda>tr. []),
       sbar_messageType = (\<lambda>tr. ''S''),
       ActiveWindow_text = (\<lambda>tr. if raises_status_check tr then ''Status check error''
                                   else ''Change Notification: Customer Complaint''),
       ActiveWindow_type = (\<lambda>tr. if raises_status_check tr then ''GuiModalWindow''
                                   else ''GuiMainWindow''),
       field_text = (\<lambda>f tr. []),
       field_count = (\<lambda>f tr. 0),
       has_button = (\<lambda>c tr. False),
       text_write_error = (\<lambda>f tr. None),
       dialog_messages = (\<lambda>tr. []),
       tree_nodes = (\<lambda>tr. []),
       cell_value = (\<lambda>c tr. []),
       RowCount = (\<lambda>tr. 4),
       visibleRowCount = (\<lambda>tr. 5),
       grid_cell = (\<lambda>r c tr.
          if c = 0 then (if r = 0 then ''1'' else if r = 1 then ''2'' else if r = 2 then ''3'' else [])
          else if c = 16 \<and> r = 2 then ''01.02.2024'' else []) \<rparr>"

text \<open>A lookup outcome that is a business warning or error other than not-found.\<close>

fun lookup_refused :: "exn + nat \<Rightarrow> bool" where
  "lookup_refused (Inl (DocumentProcessingWarning m)) = True"
| "lookup_refused (Inl (DocumentProcessingError m)) = True"
| "lookup_refused _ = False"

definition always_blocked :: env where
  "always_blocked tr = Inl (DocumentProcessingWarning ''Order is blocked'')"

section \<open>Properties of the text functions\<close>

lemma py_str_400081469: "py_str 400081469 = ''400081469''"
  by (simp add: py_str.simps digit_char_def)

lemma py_str_50: "py_str 50 = ''50''"
  by (simp add: py_str.simps digit_char_def)

lemma py_str_12: "py_str 12 = ''12''"
  by (simp add: py_str.simps digit_char_def)

lemma py_str_123: "py_str 123 = ''123''"
  by (simp add: py_str.simps digit_char_def)

lemmas py_strip_defs = py_strip_def py_lstrip_def py_rstrip_def py_isspace_def


lemma py_str_nonempty: "py_str n \<noteq> []"
  by (subst py_str.simps) simp

lemma py_in_prefix: "prefix p t \<Longrightarrow> py_in p t"
  by (cases t) auto

lemma py_in_iff: "py_in p t \<longleftrightarrow> (\<exists>pre post. t = pre @ p @ post)"
proof (induction t)
  case Nil
  then show ?case by auto
next
  case (Cons c cs)
  show ?case
  proof
    assume "py_in p (c # cs)"
    then consider "prefix p (c # cs)" | "py_in p cs" by auto
    then show "\<exists>pre post. c # cs = pre @ p @ post"
    proof cases
      case 1
      then obtain post where "c # cs = p @ post" by (auto simp: prefix_def)
      then have "c # cs = [] @ p @ post" by simp
      then show ?thesis by blast
    next
      case 2
      with Cons.IH obtain pre post where "cs = pre @ p @ post" by blast
      then have "c # cs = (c # pre) @ p @ post" by simp
      then show ?thesis by blast
    qed
  next
    assume "\<exists>pre post. c # cs = pre @ p @ post"
    then obtain pre post where e: "c # cs = pre @ p @ post" by blast
    show "py_in p (c # cs)"
    proof (cases pre)
      case Nil
      with e have "prefix p (c # cs)" by (simp add: prefix_def)
      then show ?thesis by simp
    next
      case (Cons a pre')
      with e have "cs = pre' @ p @ post" by simp
      with Cons.IH have "py_in p cs" by blast
      then show ?thesis by simp
    qed
  qed
qed

lemma re_findall_none: "p \<noteq> [] \<Longrightarrow> \<not> py_in p t \<Longrightarrow> re_findall p t = []"
  by (induction t) auto

lemma remove_duplicates_absent: "p \<noteq> [] \<Longrightarrow> \<not> py_in p t \<Longrightarrow> remove_duplicates t p = t"
  by (simp add: remove_duplicates_def re_findall_none)

lemma occ_count_append_ge: "occ_count p ys \<le> occ_count p (xs @ ys)"
  by (induction xs) (auto intro: le_trans)

lemma occ_count_drop_le: "occ_count p (drop k xs) \<le> occ_count p xs"
  using occ_count_append_ge [of p "drop k xs" "take k xs"] by simp

lemma re_findall_le_occ: "length (re_findall p t) \<le> occ_count p t"
proof (induction p t rule: re_findall.induct)
  case (1 p)
  then show ?case by simp
next
  case (2 p c cs)
  show ?case
  proof (cases "prefix p (c # cs)")
    case True
    have "length (re_findall p (drop (length p - 1) cs)) \<le> occ_count p (drop (length p - 1) cs)"
      using 2 True by simp
    also have "\<dots> \<le> occ_count p cs" by (rule occ_count_drop_le)
    finally show ?thesis using True by simp
  next
    case False
    then show ?thesis using 2 by simp
  qed
qed

lemma occ_zero_scan:
  "p \<noteq> [] \<Longrightarrow> occ_count p t = 0 \<Longrightarrow> re_sub_empty p t = t \<and> re_findall p t = []"
  by (induction t) (auto split: if_splits)

lemma scan_skip:
  "occ_count p (pre @ rest) = occ_count p rest \<Longrightarrow>
   re_sub_empty p (pre @ rest) = pre @ re_sub_empty p rest \<and> re_findall p (pre @ rest) = re_findall p rest"
proof (induction pre)
  case Nil
  then show ?case by simp
next
  case (Cons a pre)
  have ge: "occ_count p rest \<le> occ_count p (pre @ rest)" by (rule occ_count_append_ge)
  from Cons.prems have np: "\<not> prefix p (a # pre @ rest)" and eq: "occ_count p (pre @ rest) = occ_count p rest"
    using ge by (auto split: if_splits)
  from Cons.IH [OF eq] np show ?case by simp
qed

lemma scan_match:
  "p \<noteq> [] \<Longrightarrow> re_sub_empty p (p @ rest) = re_sub_empty p rest \<and> re_findall p (p @ rest) = p # re_findall p rest"
  by (cases p) auto

lemma occ_match: "p \<noteq> [] \<Longrightarrow> Suc (occ_count p rest) \<le> occ_count p (p @ rest)"
proof -
  assume "p \<noteq> []"
  then obtain a p' where p: "p = a # p'" by (cases p) auto
  have "occ_count p rest \<le> occ_count p (p' @ rest)" by (rule occ_count_append_ge)
  then show ?thesis unfolding p by simp
qed

lemma two_adjacent:
  assumes ne: "cid \<noteq> []" and two: "occ_count cid (pre @ cid @ cid @ post) = 2"
  shows "remove_duplicates (pre @ cid @ cid @ post) cid = py_strip (pre @ post)"
proof -
  have a: "Suc (occ_count cid post) \<le> occ_count cid (cid @ post)" by (rule occ_match [OF ne])
  have b: "Suc (occ_count cid (cid @ post)) \<le> occ_count cid (cid @ cid @ post)" by (rule occ_match [OF ne])
  have c: "occ_count cid (cid @ cid @ post) \<le> occ_count cid (pre @ cid @ cid @ post)"
    by (rule occ_count_append_ge)
  from a b c two have z: "occ_count cid post = 0"
    and e: "occ_count cid (pre @ cid @ cid @ post) = occ_count cid (cid @ cid @ post)" by auto
  note s1 = scan_skip [OF e]
  note s2 = scan_match [OF ne, of "cid @ post"]
  note s3 = scan_match [OF ne, of post]
  note s4 = occ_zero_scan [OF ne z]
  have f: "re_findall cid (pre @ cid @ cid @ post) = [cid, cid]" using s1 s2 s3 s4 by simp
  have s: "re_sub_empty cid (pre @ cid @ cid @ post) = pre @ post" using s1 s2 s3 s4 by simp
  show ?thesis by (simp add: remove_duplicates_def f s)
qed

lemma at_most_one: "occ_count cid text \<le> 1 \<Longrightarrow> remove_duplicates text cid = text"
  using re_findall_le_occ [of cid "text"] by (simp add: remove_duplicates_def)

lemma py_in_strip: "py_in p (py_strip t) \<Longrightarrow> py_in p t"
proof -
  assume "py_in p (py_strip t)"
  then obtain a b where ab: "py_strip t = a @ p @ b" by (auto simp: py_in_iff)
  have l: "t = takeWhile py_isspace t @ py_lstrip t" by (simp add: py_lstrip_def)
  have "rev (py_lstrip t) = takeWhile py_isspace (rev (py_lstrip t)) @ dropWhile py_isspace (rev (py_lstrip t))"
    by simp
  then have r: "py_lstrip t = py_strip t @ rev (takeWhile py_isspace (rev (py_lstrip t)))"
    unfolding py_strip_def py_rstrip_def by (metis rev_append rev_rev_ident)
  have "t = (takeWhile py_isspace t @ a) @ p @ (b @ rev (takeWhile py_isspace (rev (py_lstrip t))))"
    using l r ab by (metis append.assoc)
  then show ?thesis unfolding py_in_iff by blast
qed

section \<open>Text repair and annotation (claims C4, C5, C6)\<close>


lemma append_case_id_text_absent:
  assumes "\<not> py_in (py_str case_id) txt"
  shows "append_case_id_text txt case_id tr =
    (if length (py_strip txt @ '' D '' @ py_str case_id) \<le> 50
     then (Inr (py_strip txt @ '' D '' @ py_str case_id), tr)
     else (Inl (DocumentProcessingError ([CHR 0x27] @ ''Text'' @ [CHR 0x27] @ '' value exceeds 50 chars length!'')), tr))"
  using assms
  by (simp add: append_case_id_text_def remove_duplicates_absent py_str_nonempty
      MAX_TEXT_FIELD_CHARS_def py_str_50 Let_def)

lemma append_case_id_text_present:
  assumes "py_in (py_str case_id) txt"
  shows "append_case_id_text txt case_id tr =
    (Inl (CaseIdContainedWarning ''Document text already contains the case ID!''),
     press_key F12 (press_key F12 tr))"
  using assms by (simp add: append_case_id_text_def fb03_to_initial_screen_def)

lemma fb03_append_case_id_reach:
  assumes "fst (fb03_set_search_criteria G cocd (py_str doc) (py_str yr) tr) = Inr ()"
    and "\<not> is_alert_message G (snd (fb03_set_search_criteria G cocd (py_str doc) (py_str yr) tr))"
    and "append_case_id_text (fb03_get_document_text G (fb03_open_document_parameters
            (snd (fb03_set_search_criteria G cocd (py_str doc) (py_str yr) tr)))) case_id
          (fb03_open_document_parameters (snd (fb03_set_search_criteria G cocd (py_str doc) (py_str yr) tr)))
         = (Inl e, tr')"
  shows "fb03_append_case_id G doc yr cocd case_id (Some tr) = (Inl e, Some tr')"
  using assms
  by (cases "fb03_set_search_criteria G cocd (py_str doc) (py_str yr) tr")
     (simp add: fb03_append_case_id_def bind_def Let_def)

lemma search_trace:
  "snd (fb03_set_search_criteria G cocd d y tr) =
     tr @ [SetText ''RF05L-BUKRS'' cocd, SetText ''RF05L-BELNR'' d, SetText ''RF05L-GJAHR'' y, SendVKey 0]"
  by (simp add: fb03_set_search_criteria_def press_key_def Let_def)

lemma opened_trace:
  "fb03_open_document_parameters (snd (fb03_set_search_criteria G cocd d y tr)) =
     tr @ [SetText ''RF05L-BUKRS'' cocd, SetText ''RF05L-BELNR'' d, SetText ''RF05L-GJAHR'' y, SendVKey 0,
           SetFocus ''RF05L-ANZDT'', SendVKey 2]"
  by (simp add: search_trace fb03_open_document_parameters_def press_key_def)

text \<open>
  Claim C5, as amended. If the case id is not a substring of the text and the composed
  string has at most 50 characters, \<open>_append_case_id\<close> returns the trimmed text
  followed by \<open>" D "\<close> and the case id. If the case id is a substring, it raises
  \<open>CaseIdContainedWarning\<close> after sending F12 twice; \<open>append_case_id\<close> then ends with
  that warning, and since the document was opened it has written no text and has not
  sent the key that enters edit mode.
\<close>

theorem append_case_id_text_result:
  "(\<not> py_in (py_str case_id) txt \<and> length (py_strip txt @ '' D '' @ py_str case_id) \<le> 50 \<longrightarrow>
      append_case_id_text txt case_id tr = (Inr (py_strip txt @ '' D '' @ py_str case_id), tr))
   \<and> (py_in (py_str case_id) txt \<longrightarrow>
      append_case_id_text txt case_id tr =
        (Inl (CaseIdContainedWarning ''Document text already contains the case ID!''),
         press_key F12 (press_key F12 tr)))
   \<and> (let tr1 = snd (fb03_set_search_criteria G cocd (py_str doc) (py_str yr) tr);
           tr2 = fb03_open_document_parameters tr1;
           tr3 = press_key F12 (press_key F12 tr2) in
        fst (fb03_set_search_criteria G cocd (py_str doc) (py_str yr) tr) = Inr ()
        \<and> \<not> is_alert_message G tr1
        \<and> py_in (py_str case_id) (fb03_get_document_text G tr2) \<longrightarrow>
        fb03_append_case_id G doc yr cocd case_id (Some tr) =
          (Inl (CaseIdContainedWarning ''Document text already contains the case ID!''), Some tr3)
        \<and> \<not> list_ex is_text_write (drop (length tr) tr3)
        \<and> SendVKey (virtual_keys CtrlF1) \<notin> set (drop (length tr) tr3))"
proof (intro conjI)
  show "\<not> py_in (py_str case_id) txt \<and> length (py_strip txt @ '' D '' @ py_str case_id) \<le> 50 \<longrightarrow>
      append_case_id_text txt case_id tr = (Inr (py_strip txt @ '' D '' @ py_str case_id), tr)"
    by (simp add: append_case_id_text_absent)
  show "py_in (py_str case_id) txt \<longrightarrow>
      append_case_id_text txt case_id tr =
        (Inl (CaseIdContainedWarning ''Document text already contains the case ID!''),
         press_key F12 (press_key F12 tr))"
    by (simp add: append_case_id_text_present)
  show "let tr1 = snd (fb03_set_search_criteria G cocd (py_str doc) (py_str yr) tr);
           tr2 = fb03_open_document_parameters tr1;
           tr3 = press_key F12 (press_key F12 tr2) in
        fst (fb03_set_search_criteria G cocd (py_str doc) (py_str yr) tr) = Inr ()
        \<and> \<not> is_alert_message G tr1
        \<and> py_in (py_str case_id) (fb03_get_document_text G tr2) \<longrightarrow>
        fb03_append_case_id G doc yr cocd case_id (Some tr) =
          (Inl (CaseIdContainedWarning ''Document text already contains the case ID!''), Some tr3)
        \<and> \<not> list_ex is_text_write (drop (length tr) tr3)
        \<and> SendVKey (virtual_keys CtrlF1) \<notin> set (drop (length tr) tr3)"
    unfolding Let_def
  proof (intro impI conjI)
    assume a: "fst (fb03_set_search_criteria G cocd (py_str doc) (py_str yr) tr) = Inr ()
        \<and> \<not> is_alert_message G (snd (fb03_set_search_criteria G cocd (py_str doc) (py_str yr) tr))
        \<and> py_in (py_str case_id) (fb03_get_document_text G (fb03_open_document_parameters
             (snd (fb03_set_search_criteria G cocd (py_str doc) (py_str yr) tr))))"
    show "fb03_append_case_id G doc yr cocd case_id (Some tr) =
          (Inl (CaseIdContainedWarning ''Document text already contains the case ID!''),
           Some (press_key F12 (press_key F12 (fb03_open_document_parameters
             (snd (fb03_set_search_criteria G cocd (py_str doc) (py_str yr) tr))))))"
      using a by (intro fb03_append_case_id_reach) (simp_all add: append_case_id_text_present)
    show "\<not> list_ex is_text_write (drop (length tr) (press_key F12 (press_key F12 (fb03_open_document_parameters
             (snd (fb03_set_search_criteria G cocd (py_str doc) (py_str yr) tr))))))"
      by (simp add: opened_trace press_key_def)
    show "SendVKey (virtual_keys CtrlF1) \<notin> set (drop (length tr) (press_key F12 (press_key F12 (fb03_open_document_parameters
             (snd (fb03_set_search_criteria G cocd (py_str doc) (py_str yr) tr))))))"
      by (simp add: opened_trace press_key_def)
  qed
qed


text \<open>
  Claim C4, as amended. A text \<open>pre @ c @ c @ post\<close> in which the case id \<open>c\<close> occurs
  exactly twice, the two occurrences adjacent, is repaired to \<open>pre @ post\<close>, trimmed:
  both occurrences are deleted. The result is free of the case id whenever
  \<open>pre @ post\<close> is. A text with at most one occurrence is returned unchanged.
\<close>

theorem remove_duplicates_repair:
  "(occ_count (py_str case_id) (pre @ py_str case_id @ py_str case_id @ post) = 2 \<longrightarrow>
      remove_duplicates (pre @ py_str case_id @ py_str case_id @ post) (py_str case_id)
        = py_strip (pre @ post)
      \<and> (\<not> py_in (py_str case_id) (pre @ post) \<longrightarrow>
           \<not> py_in (py_str case_id)
               (remove_duplicates (pre @ py_str case_id @ py_str case_id @ post) (py_str case_id))))
   \<and> (occ_count (py_str case_id) txt \<le> 1 \<longrightarrow> remove_duplicates txt (py_str case_id) = txt)"
  using two_adjacent [OF py_str_nonempty, of case_id pre post] at_most_one [of "py_str case_id" "txt"]
    py_in_strip [of "py_str case_id" "pre @ post"]
  by auto

theorem remove_duplicates_repair_witness:
  "occ_count (py_str 123) (''ab '' @ py_str 123 @ py_str 123 @ '' cd '') = 2
   \<and> remove_duplicates ''ab 123123 cd '' ''123'' = ''ab  cd''
   \<and> \<not> py_in ''123'' ''ab  cd ''
   \<and> \<not> py_in ''123'' (remove_duplicates ''ab 123123 cd '' ''123'')
   \<and> occ_count (py_str 123) ''x 123'' \<le> 1
   \<and> remove_duplicates ''x 123'' ''123'' = ''x 123''"
  using remove_duplicates_repair [of 123 "''ab ''" "'' cd ''" "''x 123''"]
  by (simp add: py_str_123 py_strip_defs)

text \<open>
  Claim C4 as stated fails: in \<open>112122\<close> the case id 12 occurs exactly twice, the
  occurrences are adjacent, and deleting them joins the surrounding characters to a new
  occurrence, so the repaired text still contains the case id once.
\<close>

theorem remove_duplicates_leaves_occurrence:
  "occ_count (py_str 12) (''1'' @ py_str 12 @ py_str 12 @ ''2'') = 2
   \<and> remove_duplicates (''1'' @ py_str 12 @ py_str 12 @ ''2'') (py_str 12) = ''12''
   \<and> occ_count (py_str 12) (remove_duplicates (''1'' @ py_str 12 @ py_str 12 @ ''2'') (py_str 12)) = 1"
  by (simp add: py_str_12 remove_duplicates_def py_strip_defs)


lemma py_str_544411698: "py_str 544411698 = ''544411698''"
  by (simp add: py_str.simps digit_char_def)

lemma py_str_2024: "py_str 2024 = ''2024''"
  by (simp add: py_str.simps digit_char_def)

lemmas quiet_simps = quiet_gui_def fb03_set_search_criteria_def fb03_open_document_parameters_def
  fb03_get_document_text_def is_alert_message_def is_error_message_def is_warning_message_def
  press_key_def py_str_400081469 py_str_544411698 py_str_2024

text \<open>
  Claim C5 at the example of the module's documentation: text \<open>RET711884319\<close>, case
  id 400081469; and on a document whose text already holds the case id.
\<close>

theorem append_case_id_text_result_witness:
  "\<not> py_in (py_str 400081469) ''RET711884319''
   \<and> length (py_strip ''RET711884319'' @ '' D '' @ py_str 400081469) \<le> 50
   \<and> append_case_id_text ''RET711884319'' 400081469 [] = (Inr ''RET711884319 D 400081469'', [])
   \<and> py_in (py_str 400081469) ''RET711884319 D 400081469''
   \<and> append_case_id_text ''RET711884319 D 400081469'' 400081469 [] =
        (Inl (CaseIdContainedWarning ''Document text already contains the case ID!''),
         [SendVKey 12, SendVKey 12])
   \<and> fb03_append_case_id (quiet_gui ''RET711884319 D 400081469'') 544411698 2024 ''0010'' 400081469 (Some []) =
        (Inl (CaseIdContainedWarning ''Document text already contains the case ID!''),
         Some [SetText ''RF05L-BUKRS'' ''0010'', SetText ''RF05L-BELNR'' ''544411698'',
               SetText ''RF05L-GJAHR'' ''2024'', SendVKey 0, SetFocus ''RF05L-ANZDT'', SendVKey 2,
               SendVKey 12, SendVKey 12])"
  using append_case_id_text_result [of 400081469 "''RET711884319''" "[]"
      "quiet_gui ''RET711884319 D 400081469''" "''0010''" 544411698 2024]
    append_case_id_text_result [of 400081469 "''RET711884319 D 400081469''" "[]"
      "quiet_gui ''RET711884319 D 400081469''" "''0010''" 544411698 2024]
  by (simp add: quiet_simps py_strip_defs)

text \<open>
  Claim C5 as stated fails for a long text: the case id is not a substring of this
  43-character text, and the function raises \<open>DocumentProcessingError\<close> instead of
  returning the composed string.
\<close>

theorem append_case_id_text_long_text:
  "\<not> py_in (py_str 400081469) ''RET711884319 returned goods invoice 2024/07''
   \<and> append_case_id_text ''RET711884319 returned goods invoice 2024/07'' 400081469 [] =
       (Inl (DocumentProcessingError ([CHR 0x27] @ ''Text'' @ [CHR 0x27] @ '' value exceeds 50 chars length!'')), [])"
  by (simp add: append_case_id_text_def remove_duplicates_def py_str_400081469 py_str_50
      MAX_TEXT_FIELD_CHARS_def py_strip_defs)

text \<open>
  Claim C6. When the case id is not in the text and the composed string is longer than
  50 characters, \<open>_append_case_id\<close> raises \<open>DocumentProcessingError\<close> and touches
  nothing. \<open>append_case_id\<close>, once the document is found and opened, ends with that
  error in the state in which it read the text: it has not sent Ctrl+F1 (the key that
  toggles edit mode), has written no text, and the text field still reads the original.
\<close>

theorem append_case_id_too_long:
  "(\<not> py_in (py_str case_id) txt \<and> length (py_strip txt @ '' D '' @ py_str case_id) > 50 \<longrightarrow>
      append_case_id_text txt case_id tr0 =
        (Inl (DocumentProcessingError ([CHR 0x27] @ ''Text'' @ [CHR 0x27] @ '' value exceeds 50 chars length!'')), tr0))
   \<and> (let tr1 = snd (fb03_set_search_criteria G cocd (py_str doc) (py_str yr) tr);
           tr2 = fb03_open_document_parameters tr1;
           old_text = fb03_get_document_text G tr2 in
        fst (fb03_set_search_criteria G cocd (py_str doc) (py_str yr) tr) = Inr ()
        \<and> \<not> is_alert_message G tr1
        \<and> \<not> py_in (py_str case_id) old_text
        \<and> length (py_strip old_text @ '' D '' @ py_str case_id) > 50 \<longrightarrow>
        fb03_append_case_id G doc yr cocd case_id (Some tr) =
          (Inl (DocumentProcessingError ([CHR 0x27] @ ''Text'' @ [CHR 0x27] @ '' value exceeds 50 chars length!'')), Some tr2)
        \<and> SendVKey (virtual_keys CtrlF1) \<notin> set (drop (length tr) tr2)
        \<and> \<not> list_ex is_text_write (drop (length tr) tr2)
        \<and> fb03_get_document_text G tr2 = old_text)"
proof (intro conjI)
  show "\<not> py_in (py_str case_id) txt \<and> length (py_strip txt @ '' D '' @ py_str case_id) > 50 \<longrightarrow>
      append_case_id_text txt case_id tr0 =
        (Inl (DocumentProcessingError ([CHR 0x27] @ ''Text'' @ [CHR 0x27] @ '' value exceeds 50 chars length!'')), tr0)"
    by (simp add: append_case_id_text_absent)
  show "let tr1 = snd (fb03_set_search_criteria G cocd (py_str doc) (py_str yr) tr);
           tr2 = fb03_open_document_parameters tr1;
           old_text = fb03_get_document_text G tr2 in
        fst (fb03_set_search_criteria G cocd (py_str doc) (py_str yr) tr) = Inr ()
        \<and> \<not> is_alert_message G tr1
        \<and> \<not> py_in (py_str case_id) old_text
        \<and> length (py_strip old_text @ '' D '' @ py_str case_id) > 50 \<longrightarrow>
        fb03_append_case_id G doc yr cocd case_id (Some tr) =
          (Inl (DocumentProcessingError ([CHR 0x27] @ ''Text'' @ [CHR 0x27] @ '' value exceeds 50 chars length!'')), Some tr2)
        \<and> SendVKey (virtual_keys CtrlF1) \<notin> set (drop (length tr) tr2)
        \<and> \<not> list_ex is_text_write (drop (length tr) tr2)
        \<and> fb03_get_document_text G tr2 = old_text"
    unfolding Let_def
  proof (intro impI conjI)
    assume a: "fst (fb03_set_search_criteria G cocd (py_str doc) (py_str yr) tr) = Inr ()
        \<and> \<not> is_alert_message G (snd (fb03_set_search_criteria G cocd (py_str doc) (py_str yr) tr))
        \<and> \<not> py_in (py_str case_id) (fb03_get_document_text G (fb03_open_document_parameters
             (snd (fb03_set_search_criteria G cocd (py_str doc) (py_str yr) tr))))
        \<and> length (py_strip (fb03_get_document_text G (fb03_open_document_parameters
             (snd (fb03_set_search_criteria G cocd (py_str doc) (py_str yr) tr)))) @ '' D '' @ py_str case_id) > 50"
    show "fb03_append_case_id G doc yr cocd case_id (Some tr) =
          (Inl (DocumentProcessingError ([CHR 0x27] @ ''Text'' @ [CHR 0x27] @ '' value exceeds 50 chars length!'')),
           Some (fb03_open_document_parameters
             (snd (fb03_set_search_criteria G cocd (py_str doc) (py_str yr) tr))))"
      using a by (intro fb03_append_case_id_reach) (simp_all add: append_case_id_text_absent)
    show "SendVKey (virtual_keys CtrlF1) \<notin> set (drop (length tr) (fb03_open_document_parameters
             (snd (fb03_set_search_criteria G cocd (py_str doc) (py_str yr) tr))))"
      by (simp add: opened_trace)
    show "\<not> list_ex is_text_write (drop (length tr) (fb03_open_document_parameters
             (snd (fb03_set_search_criteria G cocd (py_str doc) (py_str yr) tr))))"
      by (simp add: opened_trace)
  qed simp
qed

text \<open>Claim C6 on a document whose composed text would have 55 characters.\<close>

theorem append_case_id_too_long_witness:
  "\<not> py_in (py_str 400081469) ''RET711884319 returned goods invoice 2024/07''
   \<and> length (py_strip ''RET711884319 returned goods invoice 2024/07'' @ '' D '' @ py_str 400081469) = 55
   \<and> fb03_append_case_id (quiet_gui ''RET711884319 returned goods invoice 2024/07'') 544411698 2024 ''0010'' 400081469 (Some []) =
        (Inl (DocumentProcessingError ([CHR 0x27] @ ''Text'' @ [CHR 0x27] @ '' value exceeds 50 chars length!'')),
         Some [SetText ''RF05L-BUKRS'' ''0010'', SetText ''RF05L-BELNR'' ''544411698'',
               SetText ''RF05L-GJAHR'' ''2024'', SendVKey 0, SetFocus ''RF05L-ANZDT'', SendVKey 2])
   \<and> fb03_get_document_text (quiet_gui ''RET711884319 returned goods invoice 2024/07'')
         [SetText ''RF05L-BUKRS'' ''0010'', SetText ''RF05L-BELNR'' ''544411698'',
          SetText ''RF05L-GJAHR'' ''2024'', SendVKey 0, SetFocus ''RF05L-ANZDT'', SendVKey 2]
       = ''RET711884319 returned goods invoice 2024/07''"
  using append_case_id_too_long [of 400081469 "''RET711884319 returned goods invoice 2024/07''" "[]"
      "quiet_gui ''RET711884319 returned goods invoice 2024/07''" "''0010''" 544411698 2024 "[]"]
  by (simp add: quiet_simps py_strip_defs)

section \<open>Tree search (claim C7)\<close>


lemma py_int_090123456: "py_int ''090123456'' = Some 90123456"
  by (simp add: py_int_def py_strip_defs is_digit_def digit_val_def)

lemma find_append_case:
  "find P (xs @ ys) = (case find P xs of None \<Rightarrow> find P ys | Some x \<Rightarrow> Some x)"
  by (induction xs) auto

lemma get_node_value_find:
  "get_node_value G substr nodes tr =
     (case find (\<lambda>n. py_in substr (node_text n)) (preorder nodes) of
        None \<Rightarrow> (Inr None, tr)
      | Some n \<Rightarrow>
          (case get_reference_number G (node_key n) tr of
             (Inl e, tr1) \<Rightarrow> (Inl e, tr1)
           | (Inr num, tr1) \<Rightarrow> (Inr (Some num), tr1)))"
proof (induction G substr nodes tr rule: get_node_value.induct)
  case (1 G substr tr)
  show ?case by simp
next
  case (2 G substr key lbl children siblings tr)
  show ?case
  proof (cases "py_in substr lbl")
    case True
    then show ?thesis by simp
  next
    case False
    note nomatch = this
    show ?thesis
    proof (cases "find (\<lambda>n. py_in substr (node_text n)) (preorder children)")
      case None
      have c: "(if children \<noteq> [] then get_node_value G substr children tr else (Inr None, tr)) = (Inr None, tr)"
        using "2.IH"(1) [OF nomatch] None by (cases "children = []") simp_all
      have s: "get_node_value G substr siblings tr =
          (case find (\<lambda>n. py_in substr (node_text n)) (preorder siblings) of
             None \<Rightarrow> (Inr None, tr)
           | Some n \<Rightarrow>
              (case get_reference_number G (node_key n) tr of
                 (Inl e, tr1) \<Rightarrow> (Inl e, tr1)
               | (Inr num, tr1) \<Rightarrow> (Inr (Some num), tr1)))"
        using "2.IH"(2) [OF nomatch c [symmetric]] by simp
      show ?thesis using nomatch None c s by (simp add: find_append_case)
    next
      case (Some n)
      then have ne: "children \<noteq> []" by (cases children) auto
      have c: "get_node_value G substr children tr =
          (case get_reference_number G (node_key n) tr of
             (Inl e, tr1) \<Rightarrow> (Inl e, tr1)
           | (Inr num, tr1) \<Rightarrow> (Inr (Some num), tr1))"
        using "2.IH"(1) [OF nomatch ne] Some by simp
      show ?thesis using nomatch Some ne c
        by (simp add: find_append_case split: prod.splits sum.splits)
    qed
  qed
qed


text \<open>
  Claim C7. On every hierarchy the search returns what the pre-order, leftmost-first
  enumeration gives: the reference number of the first node in that order whose text
  contains the searched string, and \<open>None\<close>, with nothing selected, if no node does.
  The nodes after the first match are not clicked.
\<close>

theorem get_node_value_preorder:
  "get_node_value G substr nodes tr =
     (case find (\<lambda>n. py_in substr (node_text n)) (preorder nodes) of
        None \<Rightarrow> (Inr None, tr)
      | Some n \<Rightarrow>
          (case get_reference_number G (node_key n) tr of
             (Inl e, tr1) \<Rightarrow> (Inl e, tr1)
           | (Inr num, tr1) \<Rightarrow> (Inr (Some num), tr1)))"
  by (rule get_node_value_find)

text \<open>
  Claim C7 on a hierarchy whose only match is at depth 2 under the second sub-node:
  node 5 is found, after nodes 1 to 4 were passed over and before node 6 is looked at.
\<close>

theorem get_node_value_preorder_witness:
  "map node_key (preorder flow_tree) = [''1'', ''2'', ''3'', ''4'', ''5'', ''6'']
   \<and> map node_key (filter (\<lambda>n. py_in ''Accounting document'' (node_text n)) (preorder flow_tree)) = [''5'']
   \<and> get_node_value (tree_gui flow_tree) ''Accounting document'' flow_tree [] =
       (Inr (Some 90123456), [SelectItem ''5'', DoubleClickItem ''5''])"
  using get_node_value_preorder [of "tree_gui flow_tree" "''Accounting document''" flow_tree "[]"]
  by (simp add: flow_tree_def tree_gui_def get_reference_number_def last_chars_def py_int_090123456)

section \<open>The orchestrator (claims C1, C2, C3, C8, C10)\<close>


lemmas row_examples = invoice_row_def other_row_def order_row_def credited_order_row_def
  uncredited_order_row_def


subsection \<open>Recovery in the notification-closure stage (claim C1)\<close>

text \<open>
  Claim C1 does not hold for the code. One row with a notification; the session is
  lost at the first call of \<open>complete_notification\<close>. The stage opens a new session
  and then starts FB03, not QM02, before it completes the notification at the second
  call: the handler restarts the annotation driver, the driver it was running is not
  restarted.
\<close>
theorem close_service_notifications_restarts_fb03:
  "close_service_notifications lost_once [invoice_row] [] =
     (Inr [invoice_row \<lparr> Message := Some '' Notification completed.'' \<rparr>],
      [Start QM02, CompleteNotification 300012345, Connect, Start FB03,
       CompleteNotification 300012345, Close QM02])"
  by (simp add: close_service_notifications_def close_row_def qm02_retry.simps
      MAX_RECOVERY_ATTEMPTS_def lost_once_def invoice_row_def)


subsection \<open>The retry counter after a business failure (claim C2)\<close>

text \<open>
  Claim C2 does not hold for the code. Two rows; the session is lost at the first call
  of \<open>append_case_id\<close> for the first row, and after the recovery the call raises
  \<open>CaseIdContainedWarning\<close>. The handler leaves the loop without resetting the
  counter, so the stage raises \<open>RuntimeError\<close>: the run is aborted, the second row is
  never processed.
\<close>
theorem update_accounting_documents_aborts_after_recovery:
  "update_accounting_documents lost_then_contained [invoice_row, other_row] [] =
     (Inl (RuntimeError ''Attempts to handle the fb03.SapConnectionLostError exception failed!''),
      [Start FB03, AppendCaseId (Some 544411698) 2024 (Some ''0010'') 400081469, Connect, Start FB03,
       AppendCaseId (Some 544411698) 2024 (Some ''0010'') 400081469])"
  by (simp add: update_accounting_documents_def update_row_def fb03_update_def fb03_retry.simps
      MAX_RECOVERY_ATTEMPTS_def lost_then_contained_def invoice_row_def other_row_def)


subsection \<open>Lookups that find no credit note (claim C3)\<close>


lemma py_str_5012233445: "py_str 5012233445 = ''5012233445''"
  by (simp add: py_str.simps digit_char_def)

lemma set_where_order_no_credit:
  "list_all (\<lambda>r. Credit_Note r = None) result \<Longrightarrow>
   list_all (\<lambda>r. Credit_Note r = None)
     (set_where_order order (\<lambda>r. r\<lparr>Message := Some m, Credit_Note := None\<rparr>) result)
   \<and> list_all (\<lambda>r. Credit_Note r = None)
     (set_where_order order (\<lambda>r. r\<lparr>Message := Some m\<rparr>) result)"
  by (induction result) (auto simp: set_where_order_def)

lemma va03_retry_unresolved:
  assumes R: "va03_retry env order n result tr = Some y"
  shows "(\<forall>h. business_failure (env h)) \<longrightarrow> list_all (\<lambda>r. Credit_Note r = None) result \<longrightarrow>
   (\<exists>result1 evs. y = (Inr (n, result1), tr @ evs) \<and> list_all (\<lambda>r. Credit_Note r = None) result1
      \<and> list_all is_call evs)"
proof (rule va03_retry.raw_induct [where P = "\<lambda>env order n result tr y.
   (\<forall>h. business_failure (env h)) \<longrightarrow> list_all (\<lambda>r. Credit_Note r = None) result \<longrightarrow>
   (\<exists>result1 evs. y = (Inr (n, result1), tr @ evs) \<and> list_all (\<lambda>r. Credit_Note r = None) result1
      \<and> list_all is_call evs)", OF _ R])
  fix f :: "env \<Rightarrow> nat \<Rightarrow> nat \<Rightarrow> row list \<Rightarrow> action list \<Rightarrow> ((exn + nat \<times> row list) \<times> action list) option"
  fix env order n result tr y
  assume IH: "\<And>env order n result tr y. f env order n result tr = Some y \<Longrightarrow>
     (\<forall>h. business_failure (env h)) \<longrightarrow> list_all (\<lambda>r. Credit_Note r = None) result \<longrightarrow>
     (\<exists>result1 evs. y = (Inr (n, result1), tr @ evs) \<and> list_all (\<lambda>r. Credit_Note r = None) result1
        \<and> list_all is_call evs)"
  assume B: "(if n < MAX_RECOVERY_ATTEMPTS then
        (case env (tr @ [GetCreditnoteNumber (py_str order)]) of
           Inl exc \<Rightarrow>
             (case exc of
                SapConnectionLostError m \<Rightarrow>
                  f env order (n + 1) result
                    (tr @ [GetCreditnoteNumber (py_str order), Connect, Start VA03])
              | DocumentProcessingError m \<Rightarrow>
                  Some (Inr (n, set_where_order order (\<lambda>r. r\<lparr>Message := Some m\<rparr>) result),
                        tr @ [GetCreditnoteNumber (py_str order)])
              | DocumentProcessingWarning m \<Rightarrow>
                  Some (Inr (n, set_where_order order (\<lambda>r. r\<lparr>Message := Some m\<rparr>) result),
                        tr @ [GetCreditnoteNumber (py_str order)])
              | CreditNoteNotFoundWarning m \<Rightarrow>
                  f env order n
                    (set_where_order order (\<lambda>r. r\<lparr>Message := Some m, Credit_Note := None\<rparr>) result)
                    (tr @ [GetCreditnoteNumber (py_str order)])
              | _ \<Rightarrow> Some (Inl exc, tr @ [GetCreditnoteNumber (py_str order)]))
         | Inr credit_note \<Rightarrow>
             Some (Inr (0, set_where_order order (\<lambda>r. r\<lparr>Credit_Note := Some credit_note\<rparr>) result),
                   tr @ [GetCreditnoteNumber (py_str order)]))
      else Some (Inr (n, result), tr)) = Some y"
  show "(\<forall>h. business_failure (env h)) \<longrightarrow> list_all (\<lambda>r. Credit_Note r = None) result \<longrightarrow>
     (\<exists>result1 evs. y = (Inr (n, result1), tr @ evs) \<and> list_all (\<lambda>r. Credit_Note r = None) result1
        \<and> list_all is_call evs)"
  proof (intro impI)
    assume H: "\<forall>h. business_failure (env h)"
      and N: "list_all (\<lambda>r. Credit_Note r = None) result"
    show "\<exists>result1 evs. y = (Inr (n, result1), tr @ evs) \<and> list_all (\<lambda>r. Credit_Note r = None) result1
      \<and> list_all is_call evs"
    proof (cases "n < MAX_RECOVERY_ATTEMPTS")
      case False
      with B have "y = (Inr (n, result), tr @ [])" by simp
      moreover have "list_all is_call ([] :: action list)" by simp
      ultimately show ?thesis using N by blast
    next
      case True
      note lt = this
      from H have b: "business_failure (env (tr @ [GetCreditnoteNumber (py_str order)]))" by blast
      then consider
        (nf) m where "env (tr @ [GetCreditnoteNumber (py_str order)]) = Inl (CreditNoteNotFoundWarning m)"
        | (w) m where "env (tr @ [GetCreditnoteNumber (py_str order)]) = Inl (DocumentProcessingWarning m)"
        | (e) m where "env (tr @ [GetCreditnoteNumber (py_str order)]) = Inl (DocumentProcessingError m)"
        by (cases "env (tr @ [GetCreditnoteNumber (py_str order)])" rule: business_failure.cases) auto
      then show ?thesis
      proof cases
        case nf
        with B lt have r: "f env order n
           (set_where_order order (\<lambda>r. r\<lparr>Message := Some m, Credit_Note := None\<rparr>) result)
           (tr @ [GetCreditnoteNumber (py_str order)]) = Some y" by simp
        have n': "list_all (\<lambda>r. Credit_Note r = None)
           (set_where_order order (\<lambda>r. r\<lparr>Message := Some m, Credit_Note := None\<rparr>) result)"
          using set_where_order_no_credit [OF N, of order m] by simp
        from IH [OF r] H n'
        obtain result1 evs where y: "y = (Inr (n, result1), (tr @ [GetCreditnoteNumber (py_str order)]) @ evs)"
          and n1: "list_all (\<lambda>r. Credit_Note r = None) result1" and c: "list_all is_call evs"
          by blast
        have "y = (Inr (n, result1), tr @ (GetCreditnoteNumber (py_str order) # evs))" using y by simp
        moreover have "list_all is_call (GetCreditnoteNumber (py_str order) # evs)" using c by simp
        ultimately show ?thesis using n1 by blast
      next
        case w
        with B lt have "y = (Inr (n, set_where_order order (\<lambda>r. r\<lparr>Message := Some m\<rparr>) result),
            tr @ [GetCreditnoteNumber (py_str order)])" by simp
        moreover have "list_all is_call [GetCreditnoteNumber (py_str order)]" by simp
        moreover have "list_all (\<lambda>r. Credit_Note r = None)
           (set_where_order order (\<lambda>r. r\<lparr>Message := Some m\<rparr>) result)"
          using set_where_order_no_credit [OF N, of order m] by simp
        ultimately show ?thesis by blast
      next
        case e
        with B lt have "y = (Inr (n, set_where_order order (\<lambda>r. r\<lparr>Message := Some m\<rparr>) result),
            tr @ [GetCreditnoteNumber (py_str order)])" by simp
        moreover have "list_all is_call [GetCreditnoteNumber (py_str order)]" by simp
        moreover have "list_all (\<lambda>r. Credit_Note r = None)
           (set_where_order order (\<lambda>r. r\<lparr>Message := Some m\<rparr>) result)"
          using set_where_order_no_credit [OF N, of order m] by simp
        ultimately show ?thesis by blast
      qed
    qed
  qed
qed

lemma va03_orders_unresolved:
  assumes H: "\<forall>h. business_failure (env h)"
  shows "va03_orders env orders result tr = Some y \<Longrightarrow> list_all (\<lambda>r. Credit_Note r = None) result \<Longrightarrow>
   \<exists>result1 evs. y = (Inr result1, tr @ evs) \<and> list_all (\<lambda>r. Credit_Note r = None) result1
      \<and> list_all is_call evs"
proof (induction orders arbitrary: result tr)
  case Nil
  then have "y = (Inr result, tr @ [])" by simp
  moreover have "list_all is_call ([] :: action list)" by simp
  ultimately show ?case using Nil.prems(2) by blast
next
  case (Cons order orders)
  from Cons.prems(1) obtain z where z: "va03_retry env order 0 result tr = Some z"
    by (cases "va03_retry env order 0 result tr") (auto simp: va03_order_def)
  from va03_retry_unresolved [OF z] H Cons.prems(2)
  obtain result1 evs where z1: "z = (Inr (0, result1), tr @ evs)"
    and n1: "list_all (\<lambda>r. Credit_Note r = None) result1" and c1: "list_all is_call evs" by blast
  from Cons.prems(1) z z1 have r: "va03_orders env orders result1 (tr @ evs) = Some y"
    by (simp add: va03_order_def)
  from Cons.IH [OF r n1] obtain result2 evs2 where y: "y = (Inr result2, (tr @ evs) @ evs2)"
    and n2: "list_all (\<lambda>r. Credit_Note r = None) result2" and c2: "list_all is_call evs2" by blast
  have "y = (Inr result2, tr @ (evs @ evs2))" using y by simp
  moreover have "list_all is_call (evs @ evs2)" using c1 c2 by simp
  ultimately show ?case using n2 by blast
qed

lemma assign_unresolved:
  assumes H: "\<forall>h. business_failure (env h)"
    and N: "list_all (\<lambda>r. Credit_Note r = None) in_data"
    and O: "\<exists>r\<in>set in_data. \<exists>d. Document_Number r = Some d \<and> prefix ORDER_NUMBERING_PREFIX (py_str d)"
    and R: "assign_credit_note_numbers env in_data tr = Some (res, tr')"
  shows "res = Inl (RuntimeError ''None of the processed orders was found in VA03!'')
     \<and> (\<exists>evs. tr' = tr @ [Start VA03] @ evs @ [Close VA03] \<and> list_all is_call evs)"
proof -
  define result where "result = map (\<lambda>r. r\<lparr>Is_Order :=
      map_option (\<lambda>d. prefix ORDER_NUMBERING_PREFIX (py_str d)) (Document_Number r)\<rparr>) in_data"
  define orders where "orders = List.map_filter
      (\<lambda>r. if Is_Order r = Some True then Document_Number r else None) result"
  from O have a: "\<not> list_all (\<lambda>r. Document_Number r = None) in_data"
    by (auto simp: list_all_iff)
  from O have b: "filter (\<lambda>r. Is_Order r = Some True) result \<noteq> []"
    unfolding result_def filter_empty_conv by force
  have n: "list_all (\<lambda>r. Credit_Note r = None) result"
    using N unfolding result_def by (simp add: list_all_iff)
  from R a b have R': "(case va03_orders env orders result (tr @ [Start VA03]) of
             None \<Rightarrow> None
           | Some (Inl exc, tr1) \<Rightarrow> Some (Inl exc, tr1)
           | Some (Inr result1, tr1) \<Rightarrow>
               if list_all (\<lambda>r. Credit_Note r = None) result1
               then Some (Inl (RuntimeError ''None of the processed orders was found in VA03!''),
                          tr1 @ [Close VA03])
               else Some (Inr result1, tr1 @ [Close VA03])) = Some (res, tr')"
    by (simp add: assign_credit_note_numbers_def Let_def result_def [symmetric] orders_def [symmetric])
  then obtain y where y: "va03_orders env orders result (tr @ [Start VA03]) = Some y"
    by (cases "va03_orders env orders result (tr @ [Start VA03])") auto
  from va03_orders_unresolved [OF H y n]
  obtain result1 evs where y1: "y = (Inr result1, (tr @ [Start VA03]) @ evs)"
    and n1: "list_all (\<lambda>r. Credit_Note r = None) result1" and c: "list_all is_call evs" by blast
  from R' y y1 n1 have "res = Inl (RuntimeError ''None of the processed orders was found in VA03!'')"
    and "tr' = tr @ [Start VA03] @ evs @ [Close VA03]" by simp_all
  with c show ?thesis by blast
qed

lemma va03_not_found:
  assumes "\<not> is_popup_dialog G (press_key Enter (tr @ [SetText ''VBAK-VBELN'' order]))"
    and "\<not> py_in ''is not in the database or has been archived''
            (sbar_text G (press_key Enter (tr @ [SetText ''VBAK-VBELN'' order])))"
    and "\<not> is_popup_dialog G (va03_open_document_parameters (press_key Enter (tr @ [SetText ''VBAK-VBELN'' order])))"
    and "\<not> is_error_message G (va03_open_document_parameters (press_key Enter (tr @ [SetText ''VBAK-VBELN'' order])))"
    and "tree_nodes G (va03_open_document_parameters (press_key Enter (tr @ [SetText ''VBAK-VBELN'' order]))) \<noteq> []"
    and "find (\<lambda>n. py_in ''Accounting document'' (node_text n))
           (preorder (tree_nodes G (va03_open_document_parameters (press_key Enter (tr @ [SetText ''VBAK-VBELN'' order]))))) = None"
  shows "va03_get_creditnote_number G order (Some tr) =
     (Inl (CreditNoteNotFoundWarning ''The credit note does not exist yet in the system.''),
      Some (va03_to_initial_screen (va03_open_document_parameters (press_key Enter (tr @ [SetText ''VBAK-VBELN'' order])))))"
proof -
  let ?tr2 = "va03_open_document_parameters (press_key Enter (tr @ [SetText ''VBAK-VBELN'' order]))"
  have "get_node_value_root G ''Accounting document'' ?tr2 = (Inr None, ?tr2)"
    using assms(5,6) by (cases "tree_nodes G ?tr2") (simp_all add: get_node_value_root_def get_node_value_find)
  then show ?thesis using assms(1-4)
    by (simp add: va03_get_creditnote_number_def bind_def Let_def)
qed
text \<open>
  Claim C3 as stated fails. One order; its first lookup raises the not-found warning.
  The same order is looked up again, no order of the run resolves to a credit note, and
  the run is aborted by \<open>RuntimeError\<close> at the end of the lookup stage: it does not
  proceed to the annotation stage.
\<close>

theorem processing_aborts_without_credit_note:
  "processing not_found_then_blocked [order_row] =
     Some (Inl (RuntimeError ''None of the processed orders was found in VA03!''),
           [Start VA03, GetCreditnoteNumber ''5012233445'', GetCreditnoteNumber ''5012233445'',
            Close VA03])"
  by (simp add: processing_def assign_credit_note_numbers_def va03_order_def va03_retry.simps
      List.map_filter_def set_where_order_def ORDER_NUMBERING_PREFIX_def MAX_RECOVERY_ATTEMPTS_def
      not_found_then_blocked_def order_row_def py_str_5012233445)



lemma lookup_refused_business: "lookup_refused x \<Longrightarrow> business_failure x"
  by (cases x rule: lookup_refused.cases) auto

lemma va03_retry_refused:
  assumes "lookup_refused (env (tr @ [GetCreditnoteNumber (py_str order)]))"
  shows "\<exists>y. va03_retry env order 0 result tr = Some y"
  using assms
  by (cases "env (tr @ [GetCreditnoteNumber (py_str order)])" rule: lookup_refused.cases)
     (simp_all add: va03_retry.simps [of env order 0 result tr] MAX_RECOVERY_ATTEMPTS_def)

lemma va03_order_refused:
  assumes "lookup_refused (env (tr @ [GetCreditnoteNumber (py_str order)]))"
  shows "\<exists>y. va03_order env order result tr = Some y"
proof -
  from va03_retry_refused [of env tr order result, OF assms]
  obtain z where z: "va03_retry env order 0 result tr = Some z" by blast
  obtain r t where p: "z = (r, t)" by (cases z) auto
  show ?thesis
  proof (cases r)
    case (Inl exc)
    with z p show ?thesis by (simp add: va03_order_def)
  next
    case (Inr nr)
    obtain n result1 where nr: "nr = (n, result1)" by (cases nr) auto
    with z p Inr show ?thesis by (simp add: va03_order_def)
  qed
qed

lemma va03_orders_refused:
  assumes H: "\<forall>h. lookup_refused (env h)"
  shows "\<exists>y. va03_orders env orders result tr = Some y"
proof (induction orders arbitrary: result tr)
  case Nil
  show ?case by simp
next
  case (Cons order orders)
  from H have "lookup_refused (env (tr @ [GetCreditnoteNumber (py_str order)]))" by blast
  from va03_order_refused [of env tr order result, OF this]
  obtain z where z: "va03_order env order result tr = Some z" by blast
  obtain r t where p: "z = (r, t)" by (cases z) auto
  show ?case
  proof (cases r)
    case (Inl exc)
    with z p show ?thesis by simp
  next
    case (Inr result1)
    with z p Cons.IH [of result1 t] show ?thesis by simp
  qed
qed

lemma assign_refused_returns:
  assumes H: "\<forall>h. lookup_refused (env h)"
  shows "\<exists>y. assign_credit_note_numbers env in_data tr = Some y"
proof -
  define result where "result = map (\<lambda>r. r\<lparr>Is_Order :=
      map_option (\<lambda>d. prefix ORDER_NUMBERING_PREFIX (py_str d)) (Document_Number r)\<rparr>) in_data"
  define orders where "orders = List.map_filter
      (\<lambda>r. if Is_Order r = Some True then Document_Number r else None) result"
  from va03_orders_refused [OF H, of orders result "tr @ [Start VA03]"]
  obtain z where z: "va03_orders env orders result (tr @ [Start VA03]) = Some z" by blast
  obtain r t where p: "z = (r, t)" by (cases z) auto
  show ?thesis
  proof (cases r)
    case (Inl exc)
    with z p show ?thesis
      by (simp add: assign_credit_note_numbers_def Let_def result_def [symmetric] orders_def [symmetric])
  next
    case (Inr result1)
    with z p show ?thesis
      by (simp add: assign_credit_note_numbers_def Let_def result_def [symmetric] orders_def [symmetric])
  qed
qed

lemma processing_unresolved:
  assumes H: "\<forall>h. business_failure (env h)"
    and N: "list_all (\<lambda>r. Credit_Note r = None) in_data"
    and O: "\<exists>r\<in>set in_data. \<exists>d. Document_Number r = Some d \<and> prefix ORDER_NUMBERING_PREFIX (py_str d)"
    and P: "processing env in_data = Some (res, tr')"
  shows "res = Inl (RuntimeError ''None of the processed orders was found in VA03!'')
       \<and> (\<exists>evs. tr' = [Start VA03] @ evs @ [Close VA03] \<and> list_all is_call evs)
       \<and> Start FB03 \<notin> set tr'"
proof -
  from P obtain res0 tr0 where A: "assign_credit_note_numbers env in_data [] = Some (res0, tr0)"
    by (cases "assign_credit_note_numbers env in_data []") (auto simp: processing_def)
  from assign_unresolved [OF H N O A]
  obtain evs where r0: "res0 = Inl (RuntimeError ''None of the processed orders was found in VA03!'')"
    and t0: "tr0 = [Start VA03] @ evs @ [Close VA03]" and c: "list_all is_call evs" by auto
  from P A r0 have r: "res = res0" and t: "tr' = tr0" by (simp_all add: processing_def)
  have "Start FB03 \<notin> set tr'" using t t0 c by (auto simp: list_all_iff)
  with r r0 t t0 c show ?thesis by blast
qed

lemma processing_refused:
  assumes H: "\<forall>h. lookup_refused (env h)"
    and N: "list_all (\<lambda>r. Credit_Note r = None) in_data"
    and O: "\<exists>r\<in>set in_data. \<exists>d. Document_Number r = Some d \<and> prefix ORDER_NUMBERING_PREFIX (py_str d)"
  shows "\<exists>tr'. processing env in_data =
           Some (Inl (RuntimeError ''None of the processed orders was found in VA03!''), tr')
         \<and> Start FB03 \<notin> set tr'"
proof -
  from assign_refused_returns [OF H, of in_data "[]"]
  obtain y where A: "assign_credit_note_numbers env in_data [] = Some y" by blast
  obtain res0 tr0 where y: "y = (res0, tr0)" by (cases y) auto
  have B: "\<forall>h. business_failure (env h)" using H lookup_refused_business by blast
  from assign_unresolved [OF B N O A [unfolded y]]
  obtain evs where r0: "res0 = Inl (RuntimeError ''None of the processed orders was found in VA03!'')"
    and t0: "tr0 = [Start VA03] @ evs @ [Close VA03]" and c: "list_all is_call evs" by auto
  have p: "processing env in_data =
      Some (Inl (RuntimeError ''None of the processed orders was found in VA03!''), tr0)"
    using A y r0 by (simp add: processing_def)
  have "Start FB03 \<notin> set tr0" using t0 c by (auto simp: list_all_iff)
  with p show ?thesis by blast
qed

text \<open>
  Claim C3, as amended. A lookup that reaches the tree search and finds no node with
  the marker raises \<open>CreditNoteNotFoundWarning\<close>, a warning and not an error, after
  going back to the initial screen. And when every lookup of a run ends in a business
  warning or error, so that no order resolves to a credit note, a batch with at least
  one order does not get past the lookup stage: when the processing phase comes to an
  end, it ends with the \<open>RuntimeError\<close> of the stage's final check, after lookups only,
  and the annotation driver is never started. It does come to that end when no lookup
  raises the not-found warning.
\<close>

theorem lookup_without_credit_note:
  "(let tr1 = press_key Enter (tr @ [SetText ''VBAK-VBELN'' order]);
        tr2 = va03_open_document_parameters tr1 in
      \<not> is_popup_dialog G tr1
      \<and> \<not> py_in ''is not in the database or has been archived'' (sbar_text G tr1)
      \<and> \<not> is_popup_dialog G tr2
      \<and> \<not> is_error_message G tr2
      \<and> tree_nodes G tr2 \<noteq> []
      \<and> find (\<lambda>n. py_in ''Accounting document'' (node_text n)) (preorder (tree_nodes G tr2)) = None \<longrightarrow>
      va03_get_creditnote_number G order (Some tr) =
        (Inl (CreditNoteNotFoundWarning ''The credit note does not exist yet in the system.''),
         Some (va03_to_initial_screen tr2)))
   \<and> ((\<forall>h. business_failure (env h))
       \<and> list_all (\<lambda>r. Credit_Note r = None) in_data
       \<and> (\<exists>r\<in>set in_data. \<exists>d. Document_Number r = Some d \<and> prefix ORDER_NUMBERING_PREFIX (py_str d))
       \<and> processing env in_data = Some (res, tr') \<longrightarrow>
       res = Inl (RuntimeError ''None of the processed orders was found in VA03!'')
       \<and> (\<exists>evs. tr' = [Start VA03] @ evs @ [Close VA03] \<and> list_all is_call evs)
       \<and> Start FB03 \<notin> set tr')
   \<and> ((\<forall>h. lookup_refused (env h))
       \<and> list_all (\<lambda>r. Credit_Note r = None) in_data
       \<and> (\<exists>r\<in>set in_data. \<exists>d. Document_Number r = Some d \<and> prefix ORDER_NUMBERING_PREFIX (py_str d)) \<longrightarrow>
       (\<exists>tr'. processing env in_data =
           Some (Inl (RuntimeError ''None of the processed orders was found in VA03!''), tr')
         \<and> Start FB03 \<notin> set tr'))"
proof (intro conjI)
  show "let tr1 = press_key Enter (tr @ [SetText ''VBAK-VBELN'' order]);
        tr2 = va03_open_document_parameters tr1 in
      \<not> is_popup_dialog G tr1
      \<and> \<not> py_in ''is not in the database or has been archived'' (sbar_text G tr1)
      \<and> \<not> is_popup_dialog G tr2
      \<and> \<not> is_error_message G tr2
      \<and> tree_nodes G tr2 \<noteq> []
      \<and> find (\<lambda>n. py_in ''Accounting document'' (node_text n)) (preorder (tree_nodes G tr2)) = None \<longrightarrow>
      va03_get_creditnote_number G order (Some tr) =
        (Inl (CreditNoteNotFoundWarning ''The credit note does not exist yet in the system.''),
         Some (va03_to_initial_screen tr2))"
    unfolding Let_def using va03_not_found [of G tr order] by blast
  show "(\<forall>h. business_failure (env h))
       \<and> list_all (\<lambda>r. Credit_Note r = None) in_data
       \<and> (\<exists>r\<in>set in_data. \<exists>d. Document_Number r = Some d \<and> prefix ORDER_NUMBERING_PREFIX (py_str d))
       \<and> processing env in_data = Some (res, tr') \<longrightarrow>
       res = Inl (RuntimeError ''None of the processed orders was found in VA03!'')
       \<and> (\<exists>evs. tr' = [Start VA03] @ evs @ [Close VA03] \<and> list_all is_call evs)
       \<and> Start FB03 \<notin> set tr'"
    using processing_unresolved [of env in_data res tr'] by blast
  show "(\<forall>h. lookup_refused (env h))
       \<and> list_all (\<lambda>r. Credit_Note r = None) in_data
       \<and> (\<exists>r\<in>set in_data. \<exists>d. Document_Number r = Some d \<and> prefix ORDER_NUMBERING_PREFIX (py_str d)) \<longrightarrow>
       (\<exists>tr'. processing env in_data =
           Some (Inl (RuntimeError ''None of the processed orders was found in VA03!''), tr')
         \<and> Start FB03 \<notin> set tr')"
    using processing_refused [of env in_data] by blast
qed

text \<open>
  Claim C3, as amended, on the order 5012233445: its hierarchy has no accounting
  document; in one run the first lookup finds no credit note and the second finds the
  order blocked, in another every lookup finds the order blocked.
\<close>

theorem lookup_without_credit_note_witness:
  "find (\<lambda>n. py_in ''Accounting document'' (node_text n)) (preorder uncredited_tree) = None
   \<and> va03_get_creditnote_number (tree_gui uncredited_tree) ''5012233445'' (Some []) =
       (Inl (CreditNoteNotFoundWarning ''The credit note does not exist yet in the system.''),
        Some [SetText ''VBAK-VBELN'' ''5012233445'', SendVKey 0, SetFocus ''KUWEV-KUNNR'',
              SendVKey 2, SendVKey 5, SendVKey 15, SendVKey 12])
   \<and> (\<forall>h. business_failure (not_found_then_blocked h))
   \<and> processing not_found_then_blocked [order_row] =
       Some (Inl (RuntimeError ''None of the processed orders was found in VA03!''),
             [Start VA03, GetCreditnoteNumber ''5012233445'', GetCreditnoteNumber ''5012233445'',
              Close VA03])
   \<and> (\<forall>h. lookup_refused (always_blocked h))
   \<and> processing always_blocked [order_row] =
       Some (Inl (RuntimeError ''None of the processed orders was found in VA03!''),
             [Start VA03, GetCreditnoteNumber ''5012233445'', Close VA03])"
proof -
  have p: "processing not_found_then_blocked [order_row] =
       Some (Inl (RuntimeError ''None of the processed orders was found in VA03!''),
             [Start VA03, GetCreditnoteNumber ''5012233445'', GetCreditnoteNumber ''5012233445'',
              Close VA03])"
    by (simp add: processing_def assign_credit_note_numbers_def va03_order_def va03_retry.simps
      List.map_filter_def set_where_order_def ORDER_NUMBERING_PREFIX_def MAX_RECOVERY_ATTEMPTS_def
      not_found_then_blocked_def order_row_def py_str_5012233445)
  have q: "processing always_blocked [order_row] =
       Some (Inl (RuntimeError ''None of the processed orders was found in VA03!''),
             [Start VA03, GetCreditnoteNumber ''5012233445'', Close VA03])"
    by (simp add: processing_def assign_credit_note_numbers_def va03_order_def va03_retry.simps
      List.map_filter_def set_where_order_def ORDER_NUMBERING_PREFIX_def MAX_RECOVERY_ATTEMPTS_def
      always_blocked_def order_row_def py_str_5012233445)
  have b: "\<forall>h. business_failure (not_found_then_blocked h)"
    by (simp add: not_found_then_blocked_def)
  have c: "\<forall>h. lookup_refused (always_blocked h)"
    by (simp add: always_blocked_def)
  show ?thesis
    using lookup_without_credit_note [of "[]" "''5012233445''" "tree_gui uncredited_tree"
        not_found_then_blocked "[order_row]"
        "Inl (RuntimeError ''None of the processed orders was found in VA03!'')"
        "[Start VA03, GetCreditnoteNumber ''5012233445'', GetCreditnoteNumber ''5012233445'', Close VA03]"]
      lookup_without_credit_note [of "[]" "''5012233445''" "tree_gui uncredited_tree"
        always_blocked "[order_row]"
        "Inl (RuntimeError ''None of the processed orders was found in VA03!'')"
        "[Start VA03, GetCreditnoteNumber ''5012233445'', Close VA03]"]
      p q b c
    by (simp add: tree_gui_def uncredited_tree_def is_popup_dialog_def is_error_message_def
        va03_open_document_parameters_def va03_to_initial_screen_def press_key_def
        order_row_def ORDER_NUMBERING_PREFIX_def py_str_5012233445)
qed

subsection \<open>Which document is annotated (claim C8)\<close>



lemma fb03_retry_trace:
  "fb03_retry env call n msg tr = (res, tr') \<Longrightarrow> is_call call \<Longrightarrow>
   \<exists>evs. tr' = tr @ evs \<and> list_all (\<lambda>a. a = call) (filter is_call evs)
       \<and> (n < MAX_RECOVERY_ATTEMPTS \<longrightarrow> filter is_call evs \<noteq> [])"
proof (induction env call n msg tr arbitrary: res tr' rule: fb03_retry.induct)
  case (1 env call n msg tr)
  note ic = \<open>is_call call\<close>
  show ?case
  proof (cases "n < MAX_RECOVERY_ATTEMPTS")
    case False
    with "1.prems" show ?thesis by (simp add: fb03_retry.simps)
  next
    case True
    note lt = this
    have one: "tr' = tr @ [call] \<Longrightarrow> ?thesis" using ic by simp
    show ?thesis
    proof (cases "env (tr @ [call])")
      case (Inr v)
      with "1.prems" lt have "tr' = tr @ [call]" by (simp add: fb03_retry.simps)
      then show ?thesis by (rule one)
    next
      case (Inl exc)
      show ?thesis
      proof (cases "\<exists>m. exc = SapConnectionLostError m")
        case False
        with "1.prems" lt Inl have "tr' = tr @ [call]"
          by (cases exc) (auto simp add: fb03_retry.simps)
        then show ?thesis by (rule one)
      next
        case True
        then obtain m where m: "exc = SapConnectionLostError m" by blast
        from "1.prems" lt Inl m
        have r: "fb03_retry env call (n + 1) msg (tr @ [call, Connect, Start FB03]) = (res, tr')"
          by (simp add: fb03_retry.simps)
        from "1.IH" [OF lt Inl m r ic]
        obtain evs where e: "tr' = (tr @ [call, Connect, Start FB03]) @ evs"
          and a: "list_all (\<lambda>a. a = call) (filter is_call evs)" by blast
        have "tr' = tr @ ([call, Connect, Start FB03] @ evs)" using e by simp
        moreover have "list_all (\<lambda>a. a = call) (filter is_call ([call, Connect, Start FB03] @ evs))"
          using a ic by simp
        moreover have "filter is_call ([call, Connect, Start FB03] @ evs) \<noteq> []" using ic by simp
        ultimately show ?thesis by blast
      qed
    qed
  qed
qed

lemma fb03_update_trace:
  assumes "Document_Year r = Some y" and "Case_ID r = Some c"
  shows "\<exists>evs. snd (fb03_update env r d tr) = tr @ evs
     \<and> list_all (\<lambda>a. a = AppendCaseId d y (Company_Code r) c) (filter is_call evs)
     \<and> filter is_call evs \<noteq> []"
proof -
  obtain res tr' where f: "fb03_retry env (AppendCaseId d y (Company_Code r) c) 0 (Message r) tr = (res, tr')"
    by (cases "fb03_retry env (AppendCaseId d y (Company_Code r) c) 0 (Message r) tr") auto
  from fb03_retry_trace [OF f]
  obtain evs where e: "tr' = tr @ evs"
    and a: "list_all (\<lambda>a. a = AppendCaseId d y (Company_Code r) c) (filter is_call evs)"
    and n: "filter is_call evs \<noteq> []"
    by (auto simp: MAX_RECOVERY_ATTEMPTS_def)
  have "snd (fb03_update env r d tr) = tr'"
    using assms f by (simp add: fb03_update_def split: sum.splits prod.splits)
  with e a n show ?thesis by blast
qed

lemma lstrip_append:
  "py_lstrip (m @ s) = (if py_lstrip m = [] then py_lstrip s else py_lstrip m @ s)"
  unfolding py_lstrip_def by (induction m) auto

lemma rstrip_keep: "\<not> py_isspace c \<Longrightarrow> py_rstrip (xs @ [c]) = xs @ [c]"
  by (simp add: py_rstrip_def)

lemma strip_skipped:
  "py_strip (m @ '' Document skipped.'') =
     (if py_lstrip m = [] then ''Document skipped.'' else py_lstrip m @ '' Document skipped.'')"
proof -
  have d: "\<not> py_isspace CHR ''.''" by (simp add: py_isspace_def)
  have l: "py_lstrip '' Document skipped.'' = ''Document skipped.''"
    by (simp add: py_lstrip_def py_isspace_def)
  have a: "py_rstrip (''Document skipped'' @ [CHR ''.'']) = ''Document skipped'' @ [CHR ''.'']"
    by (rule rstrip_keep [OF d])
  have b: "py_rstrip ((py_lstrip m @ '' Document skipped'') @ [CHR ''.'']) = (py_lstrip m @ '' Document skipped'') @ [CHR ''.'']"
    by (rule rstrip_keep [OF d])
  show ?thesis using a b by (simp add: py_strip_def lstrip_append l)
qed

text \<open>
  Claim C8. For a row that is not an order, every call of the annotation driver is made
  with the row's document number, and there is at least one call; for an order row
  with a credit-note number, the same with that number (both for a row that has its
  fiscal year and case id). For an order row without a credit-note number the driver
  is not called, and the row's message becomes its previous message, leading whitespace
  removed, followed by \<open>Document skipped.\<close>, separated by a space unless the previous
  message was blank.
\<close>

theorem update_row_selection:
  "(Is_Order r = Some False \<and> Document_Year r = Some y \<and> Case_ID r = Some c \<longrightarrow>
      (\<exists>evs. snd (update_row env r tr) = tr @ evs
         \<and> list_all (\<lambda>a. a = AppendCaseId (Document_Number r) y (Company_Code r) c) (filter is_call evs)
         \<and> filter is_call evs \<noteq> []))
   \<and> (Is_Order r = Some True \<and> Credit_Note r = Some n \<and> Document_Year r = Some y \<and> Case_ID r = Some c \<longrightarrow>
      (\<exists>evs. snd (update_row env r tr) = tr @ evs
         \<and> list_all (\<lambda>a. a = AppendCaseId (Some n) y (Company_Code r) c) (filter is_call evs)
         \<and> filter is_call evs \<noteq> []))
   \<and> (Is_Order r = Some True \<and> Credit_Note r = None \<longrightarrow>
      update_row env r tr =
        (Inr (r\<lparr>Message := Some
           (case Message r of
              None \<Rightarrow> ''Document skipped.''
            | Some m \<Rightarrow> if py_lstrip m = [] then ''Document skipped.''
                        else py_lstrip m @ '' Document skipped.'')\<rparr>), tr))"
proof (intro conjI impI)
  assume "Is_Order r = Some False \<and> Document_Year r = Some y \<and> Case_ID r = Some c"
  then show "\<exists>evs. snd (update_row env r tr) = tr @ evs
         \<and> list_all (\<lambda>a. a = AppendCaseId (Document_Number r) y (Company_Code r) c) (filter is_call evs)
         \<and> filter is_call evs \<noteq> []"
    using fb03_update_trace [of r y c env "Document_Number r" tr] by (simp add: update_row_def)
next
  assume "Is_Order r = Some True \<and> Credit_Note r = Some n \<and> Document_Year r = Some y \<and> Case_ID r = Some c"
  then show "\<exists>evs. snd (update_row env r tr) = tr @ evs
         \<and> list_all (\<lambda>a. a = AppendCaseId (Some n) y (Company_Code r) c) (filter is_call evs)
         \<and> filter is_call evs \<noteq> []"
    using fb03_update_trace [of r y c env "Some n" tr] by (simp add: update_row_def)
next
  assume "Is_Order r = Some True \<and> Credit_Note r = None"
  then show "update_row env r tr =
        (Inr (r\<lparr>Message := Some
           (case Message r of
              None \<Rightarrow> ''Document skipped.''
            | Some m \<Rightarrow> if py_lstrip m = [] then ''Document skipped.''
                        else py_lstrip m @ '' Document skipped.'')\<rparr>), tr)"
    using strip_skipped [of "[]"] strip_skipped
    by (cases "Message r") (simp_all add: update_row_def py_lstrip_def)
qed




text \<open>
  Claim C8 on an invoice row, a credited order row, and an order row that carries the
  not-found warning of the lookup stage.
\<close>

theorem update_row_selection_witness:
  "update_row always_ok invoice_row [] =
     (Inr (invoice_row \<lparr>Message := Some ''Document updated.''\<rparr>),
      [AppendCaseId (Some 544411698) 2024 (Some ''0010'') 400081469])
   \<and> update_row always_ok credited_order_row [] =
     (Inr (credited_order_row \<lparr>Message := Some ''Document updated.''\<rparr>),
      [AppendCaseId (Some 90123456) 2024 (Some ''0010'') 400081469])
   \<and> update_row always_ok uncredited_order_row [] =
     (Inr (uncredited_order_row \<lparr>Message :=
        Some ''The credit note does not exist yet in the system. Document skipped.''\<rparr>), [])"
  using update_row_selection [of invoice_row 2024 400081469 always_ok "[]" 0]
    update_row_selection [of credited_order_row 2024 400081469 always_ok "[]" 90123456]
    update_row_selection [of uncredited_order_row 2024 400081469 always_ok "[]" 0]
  by (simp add: row_examples always_ok_def update_row_def fb03_update_def fb03_retry.simps
      MAX_RECOVERY_ATTEMPTS_def py_strip_defs)


subsection \<open>Rows without a notification (claim C10)\<close>

lemma close_rows_missing:
  "\<exists>x\<in>set rows. Notification x = None \<Longrightarrow> \<exists>exc tr'. close_rows env rows tr = (Inl exc, tr')"
proof (induction rows arbitrary: tr)
  case Nil
  then show ?case by simp
next
  case (Cons r rs)
  show ?case
  proof (cases "close_row env r tr")
    case (Pair res tr1)
    show ?thesis
    proof (cases res)
      case (Inl exc)
      with Pair show ?thesis by simp
    next
      case (Inr r1)
      with Pair have "Notification r \<noteq> None"
        by (auto simp: close_row_def split: option.splits)
      with Cons.prems have "\<exists>x\<in>set rs. Notification x = None" by auto
      from Cons.IH [OF this, of tr1] obtain exc tr' where "close_rows env rs tr1 = (Inl exc, tr')" by blast
      with Pair Inr show ?thesis by simp
    qed
  qed
qed

lemma close_rows_append:
  "close_rows env (pre @ rest) tr =
     (case close_rows env pre tr of
        (Inl exc, tr1) \<Rightarrow> (Inl exc, tr1)
      | (Inr pre1, tr1) \<Rightarrow>
          (case close_rows env rest tr1 of
             (Inl exc, tr2) \<Rightarrow> (Inl exc, tr2)
           | (Inr rest1, tr2) \<Rightarrow> (Inr (pre1 @ rest1), tr2)))"
  by (induction pre arbitrary: tr) (auto split: prod.splits sum.splits)

text \<open>
  Claim C10. A batch that has a row with a notification and a row without one never
  gets through the notification-closure stage: the stage ends with an exception
  whatever the outside does. When the rows before the first row without a notification
  are processed, the exception is the \<open>TypeError\<close> of \<open>int(pd.NA)\<close>, raised at that
  row before any call for it; the row is not skipped.
\<close>

theorem close_service_notifications_missing_notification:
  "((\<exists>x\<in>set rows. Notification x = None) \<and> (\<exists>x\<in>set rows. Notification x \<noteq> None) \<longrightarrow>
      (\<exists>exc tr'. close_service_notifications env rows tr = (Inl exc, tr')))
   \<and> (rows = pre @ r # post \<and> Notification r = None \<and> (\<exists>x\<in>set rows. Notification x \<noteq> None)
        \<and> close_rows env pre (tr @ [Start QM02]) = (Inr pre1, tr1) \<longrightarrow>
      close_service_notifications env rows tr = (Inl int_of_NA, tr1))"
proof (intro conjI impI)
  assume a: "(\<exists>x\<in>set rows. Notification x = None) \<and> (\<exists>x\<in>set rows. Notification x \<noteq> None)"
  then have n: "filter (\<lambda>r. Notification r \<noteq> None) rows \<noteq> []" by (auto simp: filter_empty_conv)
  from a close_rows_missing [of rows env "tr @ [Start QM02]"]
  obtain exc tr' where "close_rows env rows (tr @ [Start QM02]) = (Inl exc, tr')" by blast
  with n show "\<exists>exc tr'. close_service_notifications env rows tr = (Inl exc, tr')"
    by (simp add: close_service_notifications_def)
next
  assume a: "rows = pre @ r # post \<and> Notification r = None \<and> (\<exists>x\<in>set rows. Notification x \<noteq> None)
        \<and> close_rows env pre (tr @ [Start QM02]) = (Inr pre1, tr1)"
  then have "\<exists>x\<in>set rows. Notification x \<noteq> None" by blast
  then have n: "filter (\<lambda>r. Notification r \<noteq> None) rows \<noteq> []"
    unfolding filter_empty_conv by blast
  from a have "close_rows env rows (tr @ [Start QM02]) = (Inl int_of_NA, tr1)"
    by (simp add: close_rows_append close_row_def)
  with n show "close_service_notifications env rows tr = (Inl int_of_NA, tr1)"
    by (simp add: close_service_notifications_def)
qed

text \<open>Claim C10 on an invoice row with a notification followed by a row without one.\<close>

theorem close_service_notifications_missing_notification_witness:
  "(\<exists>x\<in>set [invoice_row, other_row]. Notification x = None)
   \<and> (\<exists>x\<in>set [invoice_row, other_row]. Notification x \<noteq> None)
   \<and> close_rows always_ok [invoice_row] [Start QM02] =
       (Inr [invoice_row \<lparr>Message := Some '' Notification completed.''\<rparr>],
        [Start QM02, CompleteNotification 300012345])
   \<and> close_service_notifications always_ok [invoice_row, other_row] [] =
       (Inl int_of_NA, [Start QM02, CompleteNotification 300012345])"
  using close_service_notifications_missing_notification
    [of "[invoice_row, other_row]" always_ok "[]" "[invoice_row]" other_row "[]"
        "[invoice_row \<lparr>Message := Some '' Notification completed.''\<rparr>]"
        "[Start QM02, CompleteNotification 300012345]"]
  by (simp add: row_examples always_ok_def close_row_def qm02_retry.simps MAX_RECOVERY_ATTEMPTS_def)

section \<open>Status check errors in the notification closure (claim C9)\<close>


lemma py_str_300012345: "py_str 300012345 = ''300012345''"
  by (simp add: py_str.simps digit_char_def)

lemma close_popup_keys_first:
  "ActiveWindow_text G tr \<in> set dialog_titles \<Longrightarrow>
   \<exists>evs. close_popup_keys G False (Suc n) tr = tr @ SendVKey 12 # evs"
proof -
  have ext: "\<exists>evs. close_popup_keys G c k t = t @ evs" for c k t
  proof (induction k arbitrary: t)
    case 0
    show ?case by simp
  next
    case (Suc k)
    show ?case
    proof (cases "ActiveWindow_text G t \<in> set dialog_titles")
      case False
      then show ?thesis by simp
    next
      case True
      from Suc [of "press_key (if c then Enter else F12) t"]
      obtain evs where "close_popup_keys G c k (press_key (if c then Enter else F12) t)
          = press_key (if c then Enter else F12) t @ evs" by blast
      with True show ?thesis by (simp add: press_key_def)
    qed
  qed
  assume a: "ActiveWindow_text G tr \<in> set dialog_titles"
  from ext [of False n "press_key F12 tr"] obtain evs
    where "close_popup_keys G False n (press_key F12 tr) = press_key F12 tr @ evs" by blast
  with a show ?thesis by (simp add: press_key_def)
qed

lemma close_popup_dialog_declines:
  assumes "ActiveWindow_text G tr = ''Status check error''"
  shows "\<exists>evs. snd (close_popup_dialog G False 3 tr) = tr @ SendVKey 12 # evs"
proof -
  have t: "ActiveWindow_text G tr \<in> set dialog_titles" using assms by (simp add: dialog_titles_def)
  have "\<exists>evs. close_popup_keys G False (Suc 2) tr = tr @ SendVKey 12 # evs"
    by (rule close_popup_keys_first [OF t])
  then obtain evs where k: "close_popup_keys G False 3 tr = tr @ SendVKey 12 # evs"
    by (auto simp: numeral_3_eq_3)
  show ?thesis
    by (cases "has_button G ''No'' (tr @ SendVKey 12 # evs)")
       (simp_all add: close_popup_dialog_def Let_def k)
qed

lemma complete_task_status_check:
  assumes "ActiveWindow_text G (select_task (task_num - 1) tr @ [Press ''FC_ERLEDIGT'']) = ''Status check error''"
  shows "complete_task G task_num tr =
     Some (close_popup_dialog G False 3 (select_task (task_num - 1) tr @ [Press ''FC_ERLEDIGT'']))"
  using assms by (simp add: complete_task_def Let_def)

lemma close_popup_dialog_result:
  "(\<exists>m. fst (close_popup_dialog G c k t) = Inl (RuntimeError m)) \<or> fst (close_popup_dialog G c k t) = Inr ()"
  by (simp add: close_popup_dialog_def Let_def)

lemma qm02_complete_status_check:
  assumes "get_available_tasks G tr = (Inr tasks, tr1)"
    and "complete_tasks G tasks tr1 = Some (Inr (), tr2)"
    and "ActiveWindow_text G (tr2 @ [Press ''tbar[1]/btn[20]'']) = ''Status check error''"
  shows "\<exists>exc tr3. qm02_complete G tr = Some (Inl exc, tr3)
       \<and> (exc = NotificationCompletionError ''Status check error!'' \<or> (\<exists>m. exc = RuntimeError m))"
    and "fst (close_popup_dialog G False 3 (tr2 @ [Press ''tbar[1]/btn[20]''])) = Inr () \<Longrightarrow>
       (is_popup_dialog G (press_key F12 (snd (close_popup_dialog G False 3 (tr2 @ [Press ''tbar[1]/btn[20]'']))))
         \<longrightarrow> fst (close_popup_dialog G False 3
               (press_key F12 (snd (close_popup_dialog G False 3 (tr2 @ [Press ''tbar[1]/btn[20]'']))))) = Inr ()) \<Longrightarrow>
       qm02_complete G tr = Some (Inl (NotificationCompletionError ''Status check error!''),
         (if is_popup_dialog G (press_key F12 (snd (close_popup_dialog G False 3 (tr2 @ [Press ''tbar[1]/btn[20]'']))))
          then snd (close_popup_dialog G False 3
               (press_key F12 (snd (close_popup_dialog G False 3 (tr2 @ [Press ''tbar[1]/btn[20]''])))))
          else press_key F12 (snd (close_popup_dialog G False 3 (tr2 @ [Press ''tbar[1]/btn[20]''])))))"
proof -
  let ?t3 = "tr2 @ [Press ''tbar[1]/btn[20]'']"
  let ?t5 = "press_key F12 (snd (close_popup_dialog G False 3 ?t3))"
  have q: "qm02_complete G tr = Some (bind (close_popup_dialog G False 3 ?t3)
                    (\<lambda>_ tr. let tr = press_key F12 tr in
                      bind (if is_popup_dialog G tr then close_popup_dialog G False 3 tr
                            else (Inr (), tr))
                      (\<lambda>_ tr. (Inl (NotificationCompletionError ''Status check error!''), tr))))"
    using assms by (simp add: qm02_complete_def Let_def)
  obtain r1 t4 where first: "close_popup_dialog G False 3 ?t3 = (r1, t4)"
    by (cases "close_popup_dialog G False 3 ?t3") auto
  obtain r2 t6 where second: "close_popup_dialog G False 3 (press_key F12 t4) = (r2, t6)"
    by (cases "close_popup_dialog G False 3 (press_key F12 t4)") auto
  have c1: "(\<exists>m. r1 = Inl (RuntimeError m)) \<or> r1 = Inr ()"
    using close_popup_dialog_result [of G False 3 ?t3] first by simp
  have c2: "(\<exists>m. r2 = Inl (RuntimeError m)) \<or> r2 = Inr ()"
    using close_popup_dialog_result [of G False 3 "press_key F12 t4"] second by simp
  show "\<exists>exc tr3. qm02_complete G tr = Some (Inl exc, tr3)
       \<and> (exc = NotificationCompletionError ''Status check error!'' \<or> (\<exists>m. exc = RuntimeError m))"
    using q first second c1 c2
    by (cases "is_popup_dialog G (press_key F12 t4)") (auto simp add: bind_def Let_def)
  show "qm02_complete G tr = Some (Inl (NotificationCompletionError ''Status check error!''),
         (if is_popup_dialog G ?t5 then snd (close_popup_dialog G False 3 ?t5) else ?t5))"
    if "fst (close_popup_dialog G False 3 ?t3) = Inr ()"
      and "is_popup_dialog G ?t5 \<longrightarrow> fst (close_popup_dialog G False 3 ?t5) = Inr ()"
    using that q first second
    by (cases "is_popup_dialog G (press_key F12 t4)") (auto simp add: bind_def Let_def)
qed

lemma complete_notification_propagates:
  assumes "search_notification G notif_id tr = (Inr (), trs)"
    and "qm02_complete G (activate_tab trs) = Some (Inl exc, tr3)"
  shows "complete_notification G notif_id (Some tr) = Some (Inl exc, Some tr3)"
  using assms by (simp add: complete_notification_def)


text \<open>
  Claim C9. When the completion button of a task raises the dialog \<open>Status check
  error\<close>, \<open>_complete_task\<close> declines it, sending F12 first, and returns what closing
  the dialog returns; once the dialog is closed, the loop over the tasks goes on with
  the next task. When the overall completion button raises the dialog,
  \<open>complete_notification\<close> ends with an exception in every case, and with
  \<open>NotificationCompletionError\<close> when the dialogs it declines are closed. (A dialog
  that cannot be closed makes \<open>_close_popup_dialog\<close> raise \<open>RuntimeError\<close> in both
  places.)
\<close>

theorem status_check_error_handling:
  "(let tr1 = select_task (task_num - 1) tr @ [Press ''FC_ERLEDIGT''] in
      ActiveWindow_text G tr1 = ''Status check error'' \<longrightarrow>
        complete_task G task_num tr = Some (close_popup_dialog G False 3 tr1)
        \<and> (\<exists>evs. snd (close_popup_dialog G False 3 tr1) = tr1 @ SendVKey (virtual_keys F12) # evs)
        \<and> (fst (close_popup_dialog G False 3 tr1) = Inr () \<longrightarrow>
             complete_tasks G ((task_num, [], row_idx) # tasks) tr =
               complete_tasks G tasks (snd (close_popup_dialog G False 3 tr1))))
   \<and> (let tr3 = tr2 @ [Press ''tbar[1]/btn[20]''];
           tr5 = press_key F12 (snd (close_popup_dialog G False 3 tr3)) in
      search_notification G notif_id tr0 = (Inr (), trs)
      \<and> get_available_tasks G (activate_tab trs) = (Inr all_tasks, tra)
      \<and> complete_tasks G all_tasks tra = Some (Inr (), tr2)
      \<and> ActiveWindow_text G tr3 = ''Status check error'' \<longrightarrow>
        (\<exists>exc tr6. complete_notification G notif_id (Some tr0) = Some (Inl exc, Some tr6)
           \<and> (exc = NotificationCompletionError ''Status check error!'' \<or> (\<exists>m. exc = RuntimeError m)))
        \<and> (fst (close_popup_dialog G False 3 tr3) = Inr ()
            \<and> (is_popup_dialog G tr5 \<longrightarrow> fst (close_popup_dialog G False 3 tr5) = Inr ()) \<longrightarrow>
            complete_notification G notif_id (Some tr0) =
              Some (Inl (NotificationCompletionError ''Status check error!''),
                    Some (if is_popup_dialog G tr5 then snd (close_popup_dialog G False 3 tr5) else tr5))))"
proof (intro conjI)
  show "let tr1 = select_task (task_num - 1) tr @ [Press ''FC_ERLEDIGT''] in
      ActiveWindow_text G tr1 = ''Status check error'' \<longrightarrow>
        complete_task G task_num tr = Some (close_popup_dialog G False 3 tr1)
        \<and> (\<exists>evs. snd (close_popup_dialog G False 3 tr1) = tr1 @ SendVKey (virtual_keys F12) # evs)
        \<and> (fst (close_popup_dialog G False 3 tr1) = Inr () \<longrightarrow>
             complete_tasks G ((task_num, [], row_idx) # tasks) tr =
               complete_tasks G tasks (snd (close_popup_dialog G False 3 tr1)))"
    unfolding Let_def
  proof (intro impI conjI)
    assume a: "ActiveWindow_text G (select_task (task_num - 1) tr @ [Press ''FC_ERLEDIGT'']) = ''Status check error''"
    show t: "complete_task G task_num tr =
        Some (close_popup_dialog G False 3 (select_task (task_num - 1) tr @ [Press ''FC_ERLEDIGT'']))"
      by (rule complete_task_status_check [OF a])
    show "\<exists>evs. snd (close_popup_dialog G False 3 (select_task (task_num - 1) tr @ [Press ''FC_ERLEDIGT''])) =
        (select_task (task_num - 1) tr @ [Press ''FC_ERLEDIGT'']) @ SendVKey (virtual_keys F12) # evs"
      using close_popup_dialog_declines [OF a] by simp
    assume "fst (close_popup_dialog G False 3 (select_task (task_num - 1) tr @ [Press ''FC_ERLEDIGT''])) = Inr ()"
    then show "complete_tasks G ((task_num, [], row_idx) # tasks) tr =
        complete_tasks G tasks (snd (close_popup_dialog G False 3 (select_task (task_num - 1) tr @ [Press ''FC_ERLEDIGT''])))"
      using t by (cases "close_popup_dialog G False 3 (select_task (task_num - 1) tr @ [Press ''FC_ERLEDIGT''])") simp
  qed
  show "let tr3 = tr2 @ [Press ''tbar[1]/btn[20]''];
           tr5 = press_key F12 (snd (close_popup_dialog G False 3 tr3)) in
      search_notification G notif_id tr0 = (Inr (), trs)
      \<and> get_available_tasks G (activate_tab trs) = (Inr all_tasks, tra)
      \<and> complete_tasks G all_tasks tra = Some (Inr (), tr2)
      \<and> ActiveWindow_text G tr3 = ''Status check error'' \<longrightarrow>
        (\<exists>exc tr6. complete_notification G notif_id (Some tr0) = Some (Inl exc, Some tr6)
           \<and> (exc = NotificationCompletionError ''Status check error!'' \<or> (\<exists>m. exc = RuntimeError m)))
        \<and> (fst (close_popup_dialog G False 3 tr3) = Inr ()
            \<and> (is_popup_dialog G tr5 \<longrightarrow> fst (close_popup_dialog G False 3 tr5) = Inr ()) \<longrightarrow>
            complete_notification G notif_id (Some tr0) =
              Some (Inl (NotificationCompletionError ''Status check error!''),
                    Some (if is_popup_dialog G tr5 then snd (close_popup_dialog G False 3 tr5) else tr5)))"
    unfolding Let_def
  proof (intro impI)
    assume a: "search_notification G notif_id tr0 = (Inr (), trs)
      \<and> get_available_tasks G (activate_tab trs) = (Inr all_tasks, tra)
      \<and> complete_tasks G all_tasks tra = Some (Inr (), tr2)
      \<and> ActiveWindow_text G (tr2 @ [Press ''tbar[1]/btn[20]'']) = ''Status check error''"
    then have s: "search_notification G notif_id tr0 = (Inr (), trs)"
      and g: "get_available_tasks G (activate_tab trs) = (Inr all_tasks, tra)"
      and c: "complete_tasks G all_tasks tra = Some (Inr (), tr2)"
      and w: "ActiveWindow_text G (tr2 @ [Press ''tbar[1]/btn[20]'']) = ''Status check error''"
      by blast+
    from qm02_complete_status_check(1) [OF g c w]
    obtain exc tr6 where q: "qm02_complete G (activate_tab trs) = Some (Inl exc, tr6)"
      and e: "exc = NotificationCompletionError ''Status check error!'' \<or> (\<exists>m. exc = RuntimeError m)"
      by blast
    have one: "\<exists>exc tr6. complete_notification G notif_id (Some tr0) = Some (Inl exc, Some tr6)
           \<and> (exc = NotificationCompletionError ''Status check error!'' \<or> (\<exists>m. exc = RuntimeError m))"
      using complete_notification_propagates [OF s q] e by blast
    have two: "fst (close_popup_dialog G False 3 (tr2 @ [Press ''tbar[1]/btn[20]''])) = Inr ()
            \<and> (is_popup_dialog G (press_key F12 (snd (close_popup_dialog G False 3 (tr2 @ [Press ''tbar[1]/btn[20]'']))))
                \<longrightarrow> fst (close_popup_dialog G False 3 (press_key F12 (snd (close_popup_dialog G False 3 (tr2 @ [Press ''tbar[1]/btn[20]'']))))) = Inr ()) \<longrightarrow>
            complete_notification G notif_id (Some tr0) =
              Some (Inl (NotificationCompletionError ''Status check error!''),
                    Some (if is_popup_dialog G (press_key F12 (snd (close_popup_dialog G False 3 (tr2 @ [Press ''tbar[1]/btn[20]'']))))
                          then snd (close_popup_dialog G False 3 (press_key F12 (snd (close_popup_dialog G False 3 (tr2 @ [Press ''tbar[1]/btn[20]''])))))
                          else press_key F12 (snd (close_popup_dialog G False 3 (tr2 @ [Press ''tbar[1]/btn[20]''])))))"
    proof (intro impI)
      assume d: "fst (close_popup_dialog G False 3 (tr2 @ [Press ''tbar[1]/btn[20]''])) = Inr ()
            \<and> (is_popup_dialog G (press_key F12 (snd (close_popup_dialog G False 3 (tr2 @ [Press ''tbar[1]/btn[20]'']))))
                \<longrightarrow> fst (close_popup_dialog G False 3 (press_key F12 (snd (close_popup_dialog G False 3 (tr2 @ [Press ''tbar[1]/btn[20]'']))))) = Inr ())"
      from d have d1: "fst (close_popup_dialog G False 3 (tr2 @ [Press ''tbar[1]/btn[20]''])) = Inr ()" by blast
      from d have d2: "is_popup_dialog G (press_key F12 (snd (close_popup_dialog G False 3 (tr2 @ [Press ''tbar[1]/btn[20]'']))))
                \<longrightarrow> fst (close_popup_dialog G False 3 (press_key F12 (snd (close_popup_dialog G False 3 (tr2 @ [Press ''tbar[1]/btn[20]'']))))) = Inr ()" by blast
      show "complete_notification G notif_id (Some tr0) =
              Some (Inl (NotificationCompletionError ''Status check error!''),
                    Some (if is_popup_dialog G (press_key F12 (snd (close_popup_dialog G False 3 (tr2 @ [Press ''tbar[1]/btn[20]'']))))
                          then snd (close_popup_dialog G False 3 (press_key F12 (snd (close_popup_dialog G False 3 (tr2 @ [Press ''tbar[1]/btn[20]''])))))
                          else press_key F12 (snd (close_popup_dialog G False 3 (tr2 @ [Press ''tbar[1]/btn[20]''])))))"
        by (rule complete_notification_propagates [OF s qm02_complete_status_check(2) [OF g c w d1 d2]])
    qed
    from one two show "(\<exists>exc tr6. complete_notification G notif_id (Some tr0) = Some (Inl exc, Some tr6)
           \<and> (exc = NotificationCompletionError ''Status check error!'' \<or> (\<exists>m. exc = RuntimeError m)))
        \<and> (fst (close_popup_dialog G False 3 (tr2 @ [Press ''tbar[1]/btn[20]''])) = Inr ()
            \<and> (is_popup_dialog G (press_key F12 (snd (close_popup_dialog G False 3 (tr2 @ [Press ''tbar[1]/btn[20]'']))))
                \<longrightarrow> fst (close_popup_dialog G False 3 (press_key F12 (snd (close_popup_dialog G False 3 (tr2 @ [Press ''tbar[1]/btn[20]'']))))) = Inr ()) \<longrightarrow>
            complete_notification G notif_id (Some tr0) =
              Some (Inl (NotificationCompletionError ''Status check error!''),
                    Some (if is_popup_dialog G (press_key F12 (snd (close_popup_dialog G False 3 (tr2 @ [Press ''tbar[1]/btn[20]'']))))
                          then snd (close_popup_dialog G False 3 (press_key F12 (snd (close_popup_dialog G False 3 (tr2 @ [Press ''tbar[1]/btn[20]''])))))
                          else press_key F12 (snd (close_popup_dialog G False 3 (tr2 @ [Press ''tbar[1]/btn[20]'']))))))"
      by (rule conjI)
  qed
qed


lemmas status_check_simps = status_check_gui_def raises_status_check_def close_popup_dialog_def
  dialog_titles_def press_key_def select_task_def activate_tab_def set_notification_id_def
  is_popup_dialog_def numeral_3_eq_3

lemma sc_search:
  "search_notification status_check_gui 300012345 [] =
     (Inr (), [SetText ''wnd[0]/usr/ctxtRIWO00-QMNUM'' ''300012345'', SendVKey 0])"
  by (simp add: search_notification_def bind_def py_str_300012345 status_check_simps)

lemma sc_tasks:
  "get_available_tasks status_check_gui tr = (Inr [(1, [], 0), (2, [], 1), (3, ''01.02.2024'', 2)], tr)"
  by (simp add: get_available_tasks_def get_tasks_loop.simps status_check_gui_def py_int_def
      py_strip_defs is_digit_def digit_val_def)

lemma sc_task:
  "complete_task status_check_gui n tr =
     Some (Inr (), tr @ [ScrollTo (n - 1), SelectRow (n - 1), Press ''FC_ERLEDIGT'', SendVKey 12])"
  by (simp add: complete_task_def status_check_simps)

lemma sc_complete_tasks:
  "complete_tasks status_check_gui [(1, [], 0), (2, [], 1), (3, ''01.02.2024'', 2)] tr =
     Some (Inr (), tr @ [ScrollTo 0, SelectRow 0, Press ''FC_ERLEDIGT'', SendVKey 12,
                         ScrollTo 1, SelectRow 1, Press ''FC_ERLEDIGT'', SendVKey 12])"
  by (simp add: sc_task)

lemma sc_text:
  "ActiveWindow_text status_check_gui (tr @ [Press ''FC_ERLEDIGT'']) = ''Status check error''"
  "ActiveWindow_text status_check_gui (tr @ [Press ''tbar[1]/btn[20]'']) = ''Status check error''"
  by (simp_all add: status_check_simps)

lemma sc_decline:
  "close_popup_dialog status_check_gui False 3 (tr @ [Press ''FC_ERLEDIGT'']) =
     (Inr (), tr @ [Press ''FC_ERLEDIGT'', SendVKey 12])"
  "close_popup_dialog status_check_gui False 3 (tr @ [Press ''tbar[1]/btn[20]'']) =
     (Inr (), tr @ [Press ''tbar[1]/btn[20]'', SendVKey 12])"
  by (simp_all add: status_check_simps)

lemma sc_not_popup: "\<not> is_popup_dialog status_check_gui (tr @ [SendVKey k])"
  by (simp add: status_check_simps)

text \<open>
  Claim C9 on a notification with two open tasks, where each task's completion and
  the overall completion raise the dialog.
\<close>

theorem status_check_error_handling_witness:
  "complete_task status_check_gui 1 [] =
     Some (Inr (), [ScrollTo 0, SelectRow 0, Press ''FC_ERLEDIGT'', SendVKey 12])
   \<and> complete_tasks status_check_gui [(1, [], 0), (2, [], 1)] [] =
     Some (Inr (), [ScrollTo 0, SelectRow 0, Press ''FC_ERLEDIGT'', SendVKey 12,
                    ScrollTo 1, SelectRow 1, Press ''FC_ERLEDIGT'', SendVKey 12])
   \<and> complete_notification status_check_gui 300012345 (Some []) =
     Some (Inl (NotificationCompletionError ''Status check error!''),
           Some [SetText ''wnd[0]/usr/ctxtRIWO00-QMNUM'' ''300012345'', SendVKey 0,
                 SelectTab ''TAB_GROUP_10'',
                 ScrollTo 0, SelectRow 0, Press ''FC_ERLEDIGT'', SendVKey 12,
                 ScrollTo 1, SelectRow 1, Press ''FC_ERLEDIGT'', SendVKey 12,
                 Press ''tbar[1]/btn[20]'', SendVKey 12, SendVKey 12])"
  using status_check_error_handling [of 1 "[]" status_check_gui 0 "[(2, [], 1)]"
      "[SetText ''wnd[0]/usr/ctxtRIWO00-QMNUM'' ''300012345'', SendVKey 0,
        SelectTab ''TAB_GROUP_10'',
        ScrollTo 0, SelectRow 0, Press ''FC_ERLEDIGT'', SendVKey 12,
        ScrollTo 1, SelectRow 1, Press ''FC_ERLEDIGT'', SendVKey 12]"
      300012345 "[]"
      "[SetText ''wnd[0]/usr/ctxtRIWO00-QMNUM'' ''300012345'', SendVKey 0]"
      "[(1, [], 0), (2, [], 1), (3, ''01.02.2024'', 2)]"
      "[SetText ''wnd[0]/usr/ctxtRIWO00-QMNUM'' ''300012345'', SendVKey 0, SelectTab ''TAB_GROUP_10'']"]
  using sc_text(1) [of "[ScrollTo 0, SelectRow 0]"] sc_decline(1) [of "[ScrollTo 0, SelectRow 0]"]
    sc_text(2) [of "[SetText ''wnd[0]/usr/ctxtRIWO00-QMNUM'' ''300012345'', SendVKey 0,
        SelectTab ''TAB_GROUP_10'',
        ScrollTo 0, SelectRow 0, Press ''FC_ERLEDIGT'', SendVKey 12,
        ScrollTo 1, SelectRow 1, Press ''FC_ERLEDIGT'', SendVKey 12]"]
    sc_decline(2) [of "[SetText ''wnd[0]/usr/ctxtRIWO00-QMNUM'' ''300012345'', SendVKey 0,
        SelectTab ''TAB_GROUP_10'',
        ScrollTo 0, SelectRow 0, Press ''FC_ERLEDIGT'', SendVKey 12,
        ScrollTo 1, SelectRow 1, Press ''FC_ERLEDIGT'', SendVKey 12]"]
    sc_not_popup [of "[SetText ''wnd[0]/usr/ctxtRIWO00-QMNUM'' ''300012345'', SendVKey 0,
        SelectTab ''TAB_GROUP_10'',
        ScrollTo 0, SelectRow 0, Press ''FC_ERLEDIGT'', SendVKey 12,
        ScrollTo 1, SelectRow 1, Press ''FC_ERLEDIGT'', SendVKey 12,
        Press ''tbar[1]/btn[20]'', SendVKey 12]" 12]
  by (simp add: sc_search sc_tasks sc_task sc_complete_tasks select_task_def activate_tab_def
      press_key_def)

end
